theory Spec2Isabelle
  imports Complex_Main
begin

section \<open>Synthetic face geometry generator (src/hooks/useMediaPipe.ts)\<close>

text \<open>
  JavaScript numbers are modelled as exact reals (no rounding, no NaN, no infinities);
  \<open>Math.sin\<close>, \<open>Math.cos\<close> and \<open>Math.PI\<close> are the real \<open>sin\<close>, \<open>cos\<close> and \<open>pi\<close>.
  Array indices and lengths are natural numbers.
\<close>

record NormalizedLandmark =
  lm_x :: real
  lm_y :: real
  lm_z :: real

record BoundingBox =
  box_x :: real
  box_y :: real
  box_width :: real
  box_height :: real

text \<open>
  The interface \<open>FaceDetection\<close>. The type of the entries is a parameter: the compositor
  receives entries of type \<open>NormalizedLandmark\<close> (the declared TypeScript type), while the
  generator is modelled with entries of type \<open>NormalizedLandmark option\<close>, where \<open>None\<close> is
  JavaScript's \<open>undefined\<close> (what an array read out of range or from a hole returns).
\<close>

record 'pt FaceDetection =
  landmarks :: "'pt list"
  boundingBox :: BoundingBox
  faceOval :: "'pt list"
  leftEye :: "'pt list"
  rightEye :: "'pt list"
  lips :: "'pt list"
  noseTip :: 'pt

definition FACE_OVAL_INDICES :: "nat list" where
  "FACE_OVAL_INDICES =
    [10, 338, 297, 332, 284, 251, 389, 356, 454, 323, 361, 288,
     397, 365, 379, 378, 400, 377, 152, 148, 176, 149, 150, 136,
     172, 58, 132, 93, 234, 127, 162, 21, 54, 103, 67, 109]"

definition LEFT_EYE_INDICES :: "nat list" where
  "LEFT_EYE_INDICES = [33, 160, 158, 133, 153, 144]"

definition RIGHT_EYE_INDICES :: "nat list" where
  "RIGHT_EYE_INDICES = [362, 385, 387, 263, 373, 380]"

definition LIPS_INDICES :: "nat list" where
  "LIPS_INDICES = [61, 146, 91, 181, 84, 17, 314, 405, 321, 375, 291]"

definition NOSE_TIP_INDEX :: nat where
  "NOSE_TIP_INDEX = 1"

text \<open>
  \<open>arr[i]\<close> on a JavaScript array: \<open>undefined\<close> when \<open>i\<close> is out of range.
\<close>

definition js_index :: "'a option list \<Rightarrow> nat \<Rightarrow> 'a option" where
  "js_index arr i = (if i < length arr then arr ! i else None)"

text \<open>
  \<open>arr[i] = v\<close> on a JavaScript array: in range it overwrites the slot; out of range
  the array grows to length \<open>i + 1\<close> and the slots in between are holes.
\<close>

definition js_assign :: "'a option list \<Rightarrow> nat \<Rightarrow> 'a option \<Rightarrow> 'a option list" where
  "js_assign arr i v =
     (if i < length arr then arr[i := v]
      else arr @ replicate (i - length arr) None @ [v])"

text \<open>
  \<open>indices.forEach((idx, i) => { arr[idx] = f(i) })\<close>: the callback receives the element
  and its position; the assignments happen in order.
\<close>

definition forEach_assign ::
  "nat list \<Rightarrow> (nat \<Rightarrow> 'a option) \<Rightarrow> 'a option list \<Rightarrow> 'a option list" where
  "forEach_assign indices f arr =
     fold (\<lambda>(i, idx) acc. js_assign acc idx (f i)) (List.enumerate 0 indices) arr"

text \<open>
  The local constants \<open>centerX\<close>, \<open>centerY\<close> and \<open>ovalPoints\<close> of the generator carry the
  suffix \<open>_gen\<close>: the engine has local variables of the same names.
\<close>

definition centerX_gen :: real where "centerX_gen = 0.5"
definition centerY_gen :: real where "centerY_gen = 0.45"
definition faceWidth :: real where "faceWidth = 0.35"
definition faceHeight :: real where "faceHeight = 0.45"
definition numPoints :: nat where "numPoints = 36"

text \<open>The first loop of \<open>generateSimpleFaceDetection\<close>: 36 points pushed in order.\<close>

definition ovalPoints_gen :: "NormalizedLandmark option list" where
  "ovalPoints_gen =
     map (\<lambda>i. let angle = (real i / real numPoints) * pi * 2 in
               Some \<lparr>lm_x = centerX_gen + cos angle * faceWidth * 0.4,
                     lm_y = centerY_gen + sin angle * faceHeight * 0.45,
                     lm_z = 0\<rparr>)
         [0..<numPoints]"

text \<open>The second loop: 468 placeholder landmarks pushed in order.\<close>

definition placeholderLandmarks :: "NormalizedLandmark option list" where
  "placeholderLandmarks =
     map (\<lambda>i. Some \<lparr>lm_x = centerX_gen + (sin (real i * 0.1) * 0.1),
                     lm_y = centerY_gen + (cos (real i * 0.1) * 0.1),
                     lm_z = 0\<rparr>)
         [0..<468]"

definition leftEyeX :: real where "leftEyeX = centerX_gen - 0.08"
definition leftEyeY :: real where "leftEyeY = centerY_gen - 0.05"
definition rightEyeX :: real where "rightEyeX = centerX_gen + 0.08"
definition rightEyeY :: real where "rightEyeY = centerY_gen - 0.05"
definition lipsY :: real where "lipsY = centerY_gen + 0.15"

text \<open>The landmark array after each block of overwrites, in the order of the source.\<close>

definition landmarks_nose :: "NormalizedLandmark option list" where
  "landmarks_nose =
     js_assign placeholderLandmarks 1
       (Some \<lparr>lm_x = centerX_gen, lm_y = centerY_gen + 0.05, lm_z = 0\<rparr>)"

definition landmarks_leftEye :: "NormalizedLandmark option list" where
  "landmarks_leftEye =
     forEach_assign LEFT_EYE_INDICES
       (\<lambda>i. Some \<lparr>lm_x = leftEyeX + (real i - 3) * 0.01,
                   lm_y = leftEyeY + sin (real i) * 0.01,
                   lm_z = 0\<rparr>)
       landmarks_nose"

definition landmarks_rightEye :: "NormalizedLandmark option list" where
  "landmarks_rightEye =
     forEach_assign RIGHT_EYE_INDICES
       (\<lambda>i. Some \<lparr>lm_x = rightEyeX + (real i - 3) * 0.01,
                   lm_y = rightEyeY + sin (real i) * 0.01,
                   lm_z = 0\<rparr>)
       landmarks_leftEye"

definition landmarks_lips :: "NormalizedLandmark option list" where
  "landmarks_lips =
     forEach_assign LIPS_INDICES
       (\<lambda>i. Some \<lparr>lm_x = centerX_gen + (real i - 5) * 0.015,
                   lm_y = lipsY + sin (real i * 0.5) * 0.01,
                   lm_z = 0\<rparr>)
       landmarks_rightEye"

definition landmarks_final :: "NormalizedLandmark option list" where
  "landmarks_final =
     forEach_assign FACE_OVAL_INDICES
       (\<lambda>i. js_index ovalPoints_gen (i mod length ovalPoints_gen))
       landmarks_lips"

definition generateSimpleFaceDetection :: "NormalizedLandmark option FaceDetection" where
  "generateSimpleFaceDetection =
     \<lparr>landmarks = landmarks_final,
      boundingBox = \<lparr>box_x = centerX_gen - faceWidth / 2,
                      box_y = centerY_gen - faceHeight / 2,
                      box_width = faceWidth,
                      box_height = faceHeight\<rparr>,
      faceOval = map (\<lambda>i. js_index landmarks_final i) FACE_OVAL_INDICES,
      leftEye = map (\<lambda>i. js_index landmarks_final i) LEFT_EYE_INDICES,
      rightEye = map (\<lambda>i. js_index landmarks_final i) RIGHT_EYE_INDICES,
      lips = map (\<lambda>i. js_index landmarks_final i) LIPS_INDICES,
      noseTip = js_index landmarks_final NOSE_TIP_INDEX\<rparr>"

text \<open>
  The hook's \<open>processFrame(video)\<close>: the video element is received and not read; the
  result is the empty list until the hook is loaded, and one generated detection after.
  The type of the video is left open, since nothing of it is used.
\<close>

definition useMediaPipe_processFrame ::
  "bool \<Rightarrow> 'video \<Rightarrow> NormalizedLandmark option FaceDetection list" where
  "useMediaPipe_processFrame isLoaded video =
     (if \<not> isLoaded then [] else [generateSimpleFaceDetection])"

text \<open>
  The rectangle that bounds an axis-aligned ellipse given by its centre and its two
  half-axes (the reading of the data model's sentence about the bounding box).
\<close>

definition ellipse_bounds :: "real \<Rightarrow> real \<Rightarrow> real \<Rightarrow> real \<Rightarrow> BoundingBox" where
  "ellipse_bounds cx cy halfW halfH =
     \<lparr>box_x = cx - halfW, box_y = cy - halfH,
      box_width = 2 * halfW, box_height = 2 * halfH\<rparr>"

section \<open>Canvas bitmaps and the 2D context operations the engine calls\<close>

text \<open>
  A bitmap is a row-major list of RGBA pixels as \<open>getImageData\<close> returns them (straight
  alpha), each channel a byte (a natural number up to 255); pixel \<open>(x, y)\<close> is entry
  \<open>y * width + x\<close>. Four
  consecutive entries of an \<open>ImageData.data\<close> array are one pixel here. Canvases, video
  frames and decoded images are bitmaps; \<open>bm_originClean\<close> is the origin-clean flag that
  decides whether pixels may be read back.

  A canvas stores the colour of a pixel premultiplied by its alpha: what \<open>drawImage\<close>
  and \<open>putImageData\<close> leave in a canvas is \<open>canvasPixel\<close> of the pixel written, so a
  pixel of alpha 0 is transparent black and the colour of a pixel of low alpha is
  coarsened.

  The rasteriser is idealised: a pixel is covered when its centre is covered (no
  anti-aliasing), scaling samples the nearest source pixel, the context has no
  transform, and the output canvas' context is in its default state. The examples
  in which an overlay is drawn use a box whose ellipse and image rectangle cover every
  pixel of the canvas entirely, and images of a single colour, so that coverage and
  sampling do not matter there.
\<close>

record pixel =
  px_r :: nat
  px_g :: nat
  px_b :: nat
  px_a :: nat

definition transparentBlack :: pixel where
  "transparentBlack = \<lparr>px_r = 0, px_g = 0, px_b = 0, px_a = 0\<rparr>"

record Bitmap =
  bm_width :: nat
  bm_height :: nat
  bm_pixels :: "pixel list"
  bm_originClean :: bool

record ImageData =
  id_width :: nat
  id_height :: nat
  id_data :: "pixel list"

datatype error = SecurityError | IndexSizeError | InvalidStateError

text \<open>
  Storing a number into a \<open>Uint8ClampedArray\<close>: clamped to 0..255 and rounded to the
  nearest integer, ties to the even one.
\<close>

definition ToUint8Clamp :: "real \<Rightarrow> nat" where
  "ToUint8Clamp v =
     (if v \<le> 0 then 0
      else if v \<ge> 255 then 255
      else let f = \<lfloor>v\<rfloor> in
           if v - of_int f < 1 / 2 then nat f
           else if v - of_int f > 1 / 2 then nat (f + 1)
           else if even f then nat f else nat (f + 1))"

text \<open>Conversion of a number to a WebIDL \<open>long\<close> argument: truncation towards zero.\<close>

definition to_long :: "real \<Rightarrow> int" where
  "to_long v = (if v \<ge> 0 then \<lfloor>v\<rfloor> else \<lceil>v\<rceil>)"

text \<open>\<open>document.createElement('canvas')\<close> with \<open>width\<close> and \<open>height\<close> then assigned.\<close>

definition createCanvas :: "nat \<Rightarrow> nat \<Rightarrow> Bitmap" where
  "createCanvas w h =
     \<lparr>bm_width = w, bm_height = h,
      bm_pixels = replicate (w * h) transparentBlack, bm_originClean = True\<rparr>"

text \<open>
  Assigning \<open>canvas.width\<close> or \<open>canvas.height\<close> resets the bitmap to transparent black,
  resets the context state and sets the origin-clean flag.
\<close>

definition set_canvas_width :: "Bitmap \<Rightarrow> nat \<Rightarrow> Bitmap" where
  "set_canvas_width cv w = createCanvas w (bm_height cv)"

definition set_canvas_height :: "Bitmap \<Rightarrow> nat \<Rightarrow> Bitmap" where
  "set_canvas_height cv h = createCanvas (bm_width cv) h"

text \<open>The centre of pixel number \<open>k\<close> of a bitmap of the given width.\<close>

definition pixelCentreX :: "nat \<Rightarrow> nat \<Rightarrow> real" where
  "pixelCentreX w k = real (k mod w) + 1 / 2"

definition pixelCentreY :: "nat \<Rightarrow> nat \<Rightarrow> real" where
  "pixelCentreY w k = real (k div w) + 1 / 2"

definition clearRect :: "Bitmap \<Rightarrow> real \<Rightarrow> real \<Rightarrow> real \<Rightarrow> real \<Rightarrow> Bitmap" where
  "clearRect cv x y w h =
     cv\<lparr>bm_pixels :=
          map (\<lambda>k. let px = pixelCentreX (bm_width cv) k; py = pixelCentreY (bm_width cv) k in
                    if x \<le> px \<and> px < x + w \<and> y \<le> py \<and> py < y + h
                    then transparentBlack else bm_pixels cv ! k)
              [0..<length (bm_pixels cv)]\<rparr>"

text \<open>
  The clipping region of a context: none, or the interior of an axis-aligned ellipse
  (centre, radius x, radius y), as set by \<open>beginPath; ellipse; closePath; clip\<close>.
\<close>

datatype clipRegion = NoClip | EllipseClip real real real real

fun insideClip :: "clipRegion \<Rightarrow> real \<Rightarrow> real \<Rightarrow> bool" where
  "insideClip NoClip px py = True"
| "insideClip (EllipseClip cx cy rx ry) px py =
     (rx > 0 \<and> ry > 0 \<and> ((px - cx) / rx)\<^sup>2 + ((py - cy) / ry)\<^sup>2 \<le> 1)"

text \<open>
  \<open>ctx.ellipse(x, y, radiusX, radiusY, 0, 0, 2 * Math.PI)\<close> throws an IndexSizeError
  when a radius is negative.
\<close>

definition ellipse :: "real \<Rightarrow> real \<Rightarrow> real \<Rightarrow> real \<Rightarrow> error + clipRegion" where
  "ellipse x y radiusX radiusY =
     (if radiusX < 0 \<or> radiusY < 0 then Inl IndexSizeError
      else Inr (EllipseClip x y radiusX radiusY))"

text \<open>
  Assigning \<open>ctx.globalAlpha\<close>: a value outside 0..1 is ignored and the current value
  (given first) stays.
\<close>

definition set_globalAlpha :: "real \<Rightarrow> real \<Rightarrow> real" where
  "set_globalAlpha current v = (if 0 \<le> v \<and> v \<le> 1 then v else current)"

text \<open>
  A canvas keeps the colour of a pixel premultiplied by its alpha, in bytes. What the
  canvas holds of a straight-alpha pixel written to it is therefore the pixel read back
  from its premultiplied form: the alpha is kept, a pixel of alpha 0 is transparent
  black whatever its colour was, and at low alpha the colour is coarsened. Both
  conversions round to the nearest byte.
\<close>

definition premultiply :: "nat \<Rightarrow> nat \<Rightarrow> nat" where
  "premultiply c a = ToUint8Clamp (real c * real a / 255)"

definition unpremultiply :: "nat \<Rightarrow> nat \<Rightarrow> nat" where
  "unpremultiply c a = ToUint8Clamp (real c * 255 / real a)"

definition canvasPixel :: "pixel \<Rightarrow> pixel" where
  "canvasPixel p =
     (if px_a p = 0 then transparentBlack
      else \<lparr>px_r = unpremultiply (premultiply (px_r p) (px_a p)) (px_a p),
            px_g = unpremultiply (premultiply (px_g p) (px_a p)) (px_a p),
            px_b = unpremultiply (premultiply (px_b p) (px_a p)) (px_a p),
            px_a = px_a p\<rparr>)"

text \<open>
  Source-over compositing of one source pixel, its alpha scaled by the global alpha,
  onto one destination pixel. A source of zero opacity leaves the destination as it is;
  a painted pixel is what the canvas holds of the blend.
\<close>

definition sourceOver :: "real \<Rightarrow> pixel \<Rightarrow> pixel \<Rightarrow> pixel" where
  "sourceOver globalAlpha s d =
     (let sa = real (px_a s) / 255 * globalAlpha;
          da = real (px_a d) / 255;
          oa = sa + da * (1 - sa)
      in if sa = 0 then d
         else canvasPixel
               \<lparr>px_r = ToUint8Clamp ((real (px_r s) * sa + real (px_r d) * da * (1 - sa)) / oa),
                px_g = ToUint8Clamp ((real (px_g s) * sa + real (px_g d) * da * (1 - sa)) / oa),
                px_b = ToUint8Clamp ((real (px_b s) * sa + real (px_b d) * da * (1 - sa)) / oa),
                px_a = ToUint8Clamp (oa * 255)\<rparr>)"

text \<open>
  The source pixel that \<open>drawImage(src, dx, dy, dw, dh)\<close> paints at the point
  \<open>(px, py)\<close>, if any: nothing outside the destination rectangle, nothing for an empty
  source or an empty rectangle.
\<close>

definition samplePixel ::
  "Bitmap \<Rightarrow> real \<Rightarrow> real \<Rightarrow> real \<Rightarrow> real \<Rightarrow> real \<Rightarrow> real \<Rightarrow> pixel option" where
  "samplePixel src dx dy dw dh px py =
     (if bm_width src = 0 \<or> bm_height src = 0 \<or> dw \<le> 0 \<or> dh \<le> 0
         \<or> px < dx \<or> dx + dw \<le> px \<or> py < dy \<or> dy + dh \<le> py
      then None
      else let u = min (bm_width src - 1) (nat \<lfloor>(px - dx) / dw * real (bm_width src)\<rfloor>);
               v = min (bm_height src - 1) (nat \<lfloor>(py - dy) / dh * real (bm_height src)\<rfloor>)
           in Some (bm_pixels src ! (v * bm_width src + u)))"

text \<open>
  \<open>ctx.drawImage(src, dx, dy, dw, dh)\<close> on the canvas \<open>dst\<close> whose context has the given
  clipping region and global alpha. Drawing a source that is not origin-clean clears
  the flag of the destination.
\<close>

definition drawImage ::
  "Bitmap \<Rightarrow> clipRegion \<Rightarrow> real \<Rightarrow> Bitmap \<Rightarrow> real \<Rightarrow> real \<Rightarrow> real \<Rightarrow> real \<Rightarrow> Bitmap" where
  "drawImage dst clip globalAlpha src dx dy dw dh =
     dst\<lparr>bm_pixels :=
           map (\<lambda>k. let px = pixelCentreX (bm_width dst) k; py = pixelCentreY (bm_width dst) k in
                     if insideClip clip px py
                     then (case samplePixel src dx dy dw dh px py of
                             None \<Rightarrow> bm_pixels dst ! k
                           | Some s \<Rightarrow> sourceOver globalAlpha s (bm_pixels dst ! k))
                     else bm_pixels dst ! k)
               [0..<length (bm_pixels dst)],
         bm_originClean := bm_originClean dst \<and> bm_originClean src\<rparr>"

text \<open>
  \<open>ctx.drawImage(canvas, 0, 0)\<close> with a canvas as the source, at its own size: an
  InvalidStateError when the source canvas has a zero dimension.
\<close>

definition drawCanvas :: "Bitmap \<Rightarrow> Bitmap \<Rightarrow> error + Bitmap" where
  "drawCanvas dst src =
     (if bm_width src = 0 \<or> bm_height src = 0 then Inl InvalidStateError
      else Inr (drawImage dst NoClip 1 src 0 0 (real (bm_width src)) (real (bm_height src))))"

text \<open>The pixel of a canvas at integer coordinates; transparent black outside of it.\<close>

definition pixelAt :: "Bitmap \<Rightarrow> int \<Rightarrow> int \<Rightarrow> pixel" where
  "pixelAt cv x y =
     (if 0 \<le> x \<and> x < int (bm_width cv) \<and> 0 \<le> y \<and> y < int (bm_height cv)
      then bm_pixels cv ! (nat y * bm_width cv + nat x)
      else transparentBlack)"

text \<open>
  \<open>ctx.getImageData(sx, sy, sw, sh)\<close>: IndexSizeError for an empty rectangle,
  SecurityError when the canvas is not origin-clean, else a copy of the rectangle.
\<close>

definition getImageData :: "Bitmap \<Rightarrow> real \<Rightarrow> real \<Rightarrow> nat \<Rightarrow> nat \<Rightarrow> error + ImageData" where
  "getImageData cv sx sy sw sh =
     (if sw = 0 \<or> sh = 0 then Inl IndexSizeError
      else if \<not> bm_originClean cv then Inl SecurityError
      else Inr \<lparr>id_width = sw, id_height = sh,
                id_data = map (\<lambda>k. pixelAt cv (to_long sx + int (k mod sw))
                                               (to_long sy + int (k div sw)))
                              [0..<sw * sh]\<rparr>)"

text \<open>
  \<open>ctx.putImageData(imageData, 0, 0)\<close>: the pixels replace those of the canvas, each
  stored premultiplied, so that the canvas holds \<open>canvasPixel\<close> of what was written.
\<close>

definition putImageData :: "Bitmap \<Rightarrow> ImageData \<Rightarrow> Bitmap" where
  "putImageData cv imageData =
     cv\<lparr>bm_pixels :=
          map (\<lambda>k. let x = k mod bm_width cv; y = k div bm_width cv in
                    if x < id_width imageData \<and> y < id_height imageData
                    then canvasPixel (id_data imageData ! (y * id_width imageData + x))
                    else bm_pixels cv ! k)
              [0..<length (bm_pixels cv)]\<rparr>"

section \<open>FaceSwapEngine (src/lib/faceswap/FaceSwapEngine.ts)\<close>

record PresetFace =
  face_id :: string
  face_name :: string
  imageUrl :: string
  thumbnailUrl :: string

text \<open>
  An \<open>HTMLImageElement\<close>: its \<open>src\<close>, its \<open>crossOrigin\<close> attribute and, once decoded,
  its bitmap (\<open>img.width\<close> and \<open>img.height\<close> are the bitmap's dimensions).
\<close>

record HTMLImageElement =
  img_src :: string
  img_crossOrigin :: string
  img_bitmap :: Bitmap

record FaceSwapOptions =
  blendAmount :: real
  featherAmount :: real
  colorCorrection :: bool

text \<open>\<open>Partial<FaceSwapOptions>\<close>: every field may be absent.\<close>

record PartialFaceSwapOptions =
  opt_blendAmount :: "real option"
  opt_featherAmount :: "real option"
  opt_colorCorrection :: "bool option"

record FaceSwapEngine =
  canvas :: Bitmap
  targetFaceImage :: "HTMLImageElement option"
  options :: FaceSwapOptions

text \<open>The object spread \<open>{ ...base, ...partial }\<close>.\<close>

definition spread_options :: "FaceSwapOptions \<Rightarrow> PartialFaceSwapOptions \<Rightarrow> FaceSwapOptions" where
  "spread_options base partial =
     \<lparr>blendAmount = (case opt_blendAmount partial of None \<Rightarrow> blendAmount base | Some v \<Rightarrow> v),
      featherAmount = (case opt_featherAmount partial of None \<Rightarrow> featherAmount base | Some v \<Rightarrow> v),
      colorCorrection =
        (case opt_colorCorrection partial of None \<Rightarrow> colorCorrection base | Some v \<Rightarrow> v)\<rparr>"

definition no_options :: PartialFaceSwapOptions where
  "no_options = \<lparr>opt_blendAmount = None, opt_featherAmount = None, opt_colorCorrection = None\<rparr>"

text \<open>The constructor; a canvas element is created 300 by 150.\<close>

definition new_FaceSwapEngine :: "PartialFaceSwapOptions \<Rightarrow> FaceSwapEngine" where
  "new_FaceSwapEngine opts =
     \<lparr>canvas = createCanvas 300 150,
      targetFaceImage = None,
      options = spread_options
                  \<lparr>blendAmount = 0.95, featherAmount = 20, colorCorrection = False\<rparr> opts\<rparr>"

definition setOptions :: "FaceSwapEngine \<Rightarrow> PartialFaceSwapOptions \<Rightarrow> FaceSwapEngine" where
  "setOptions this opts = this\<lparr>options := spread_options (options this) opts\<rparr>"

definition hasTargetFace :: "FaceSwapEngine \<Rightarrow> bool" where
  "hasTargetFace this = (targetFaceImage this \<noteq> None)"

definition clearTargetFace :: "FaceSwapEngine \<Rightarrow> FaceSwapEngine" where
  "clearTargetFace this = this\<lparr>targetFaceImage := None\<rparr>"

definition dispose :: "FaceSwapEngine \<Rightarrow> FaceSwapEngine" where
  "dispose this = clearTargetFace this"

subsection \<open>loadTargetFace and the image events\<close>

text \<open>
  \<open>loadTargetFace\<close> returns a promise and installs two callbacks on a fresh image; the
  browser later fires \<open>onload\<close> or \<open>onerror\<close> on that image, once. The engine together
  with the loads started so far is the state; the call and the two callbacks are its
  transitions, and any interleaving of them with \<open>clearTargetFace\<close> is a sequence of
  transitions. A load is named by its position in the list.
\<close>

datatype promise = Pending | Fulfilled | Rejected string

record Load =
  load_img :: HTMLImageElement
  load_promise :: promise

record Page =
  engine :: FaceSwapEngine
  loads :: "Load list"

text \<open>The image before it is decoded: no pixels.\<close>

definition new_Image :: HTMLImageElement where
  "new_Image = \<lparr>img_src = [], img_crossOrigin = [], img_bitmap = createCanvas 0 0\<rparr>"

text \<open>The synchronous part of \<open>loadTargetFace\<close>: the target is not touched.\<close>

definition loadTargetFace :: "PresetFace \<Rightarrow> Page \<Rightarrow> Page" where
  "loadTargetFace face pg =
     (let img = new_Image\<lparr>img_crossOrigin := ''anonymous'', img_src := imageUrl face\<rparr>
      in pg\<lparr>loads := loads pg @ [\<lparr>load_img = img, load_promise = Pending\<rparr>]\<rparr>)"

text \<open>
  \<open>img.onload\<close> of load \<open>k\<close>, fired when the decode has produced \<open>decoded\<close>. The image was
  requested with \<open>crossOrigin = 'anonymous'\<close>, so a bitmap that arrives is origin-clean.
\<close>

definition img_onload :: "nat \<Rightarrow> Bitmap \<Rightarrow> Page \<Rightarrow> Page" where
  "img_onload k decoded pg =
     (if k < length (loads pg) \<and> load_promise (loads pg ! k) = Pending
      then let img = (load_img (loads pg ! k))\<lparr>img_bitmap := decoded\<lparr>bm_originClean := True\<rparr>\<rparr>
           in \<lparr>engine = (engine pg)\<lparr>targetFaceImage := Some img\<rparr>,
               loads = (loads pg)[k := \<lparr>load_img = img, load_promise = Fulfilled\<rparr>]\<rparr>
      else pg)"

text \<open>\<open>img.onerror\<close> of load \<open>k\<close>: the promise is rejected with an \<open>Error\<close>.\<close>

definition img_onerror :: "nat \<Rightarrow> Page \<Rightarrow> Page" where
  "img_onerror k pg =
     (if k < length (loads pg) \<and> load_promise (loads pg ! k) = Pending
      then pg\<lparr>loads := (loads pg)[k := (loads pg ! k)
                 \<lparr>load_promise :=
                    Rejected (''Failed to load face image: '' @ img_src (load_img (loads pg ! k)))\<rparr>]\<rparr>
      else pg)"

definition page_clearTargetFace :: "Page \<Rightarrow> Page" where
  "page_clearTargetFace pg = pg\<lparr>engine := clearTargetFace (engine pg)\<rparr>"

datatype event =
    Call_loadTargetFace PresetFace
  | Fire_onload nat Bitmap
  | Fire_onerror nat
  | Call_clearTargetFace

fun step :: "event \<Rightarrow> Page \<Rightarrow> Page" where
  "step (Call_loadTargetFace face) pg = loadTargetFace face pg"
| "step (Fire_onload k decoded) pg = img_onload k decoded pg"
| "step (Fire_onerror k) pg = img_onerror k pg"
| "step Call_clearTargetFace pg = page_clearTargetFace pg"

definition run :: "event list \<Rightarrow> Page \<Rightarrow> Page" where
  "run evs pg = fold step evs pg"

definition new_Page :: Page where
  "new_Page = \<lparr>engine = new_FaceSwapEngine no_options, loads = []\<rparr>"

subsection \<open>applyColorCorrection\<close>

text \<open>
  The averaging loop: seven running sums over the pixels of the two samples, which
  have the same length.
\<close>

definition sumColors ::
  "pixel list \<Rightarrow> pixel list \<Rightarrow> real \<times> real \<times> real \<times> real \<times> real \<times> real \<times> real" where
  "sumColors sourceData targetData =
     fold (\<lambda>(sp, tp) (srcR, srcG, srcB, tgtR, tgtG, tgtB, count).
             (srcR + real (px_r sp), srcG + real (px_g sp), srcB + real (px_b sp),
              tgtR + real (px_r tp), tgtG + real (px_g tp), tgtB + real (px_b tp),
              count + 1))
          (zip sourceData targetData) (0, 0, 0, 0, 0, 0, 0)"

text \<open>\<open>v || 1\<close> on a number.\<close>

definition orOne :: "real \<Rightarrow> real" where
  "orOne v = (if v = 0 then 1 else v)"

definition clamp :: "real \<Rightarrow> real" where
  "clamp v = min 1.5 (max 0.5 v)"

text \<open>The body of the adjustment loop on one pixel.\<close>

definition adjustPixel :: "real \<Rightarrow> real \<Rightarrow> real \<Rightarrow> pixel \<Rightarrow> pixel" where
  "adjustPixel rAdj gAdj bAdj p =
     (if px_a p > 0
      then p\<lparr>px_r := ToUint8Clamp (min 255 (real (px_r p) * rAdj)),
             px_g := ToUint8Clamp (min 255 (real (px_g p) * gAdj)),
             px_b := ToUint8Clamp (min 255 (real (px_b p) * bAdj))\<rparr>
      else p)"

text \<open>
  Every exception inside the \<open>try\<close> block is caught and the canvas is then as it was:
  all reads come before the single \<open>putImageData\<close>.
\<close>

definition applyColorCorrection ::
  "FaceSwapEngine \<Rightarrow> Bitmap \<Rightarrow> nat \<Rightarrow> nat \<Rightarrow> FaceSwapEngine" where
  "applyColorCorrection this sourceVideo width height =
     (let tempCanvas = drawImage (createCanvas width height) NoClip 1 sourceVideo
                         0 0 (real width) (real height);
          sampleSize = 50;
          centerX = real width / 2 - real sampleSize / 2;
          centerY = real height / 2 - real sampleSize / 2
      in case getImageData tempCanvas centerX centerY sampleSize sampleSize of
           Inl e \<Rightarrow> this
         | Inr sourceData \<Rightarrow>
       (case getImageData (canvas this) centerX centerY sampleSize sampleSize of
           Inl e \<Rightarrow> this
         | Inr targetData \<Rightarrow>
       (case sumColors (id_data sourceData) (id_data targetData) of
          (srcR, srcG, srcB, tgtR, tgtG, tgtB, count) \<Rightarrow>
            if count > 0
            then let srcR = srcR / count; srcG = srcG / count; srcB = srcB / count;
                     tgtR = tgtR / count; tgtG = tgtG / count; tgtB = tgtB / count;
                     rRatio = srcR / orOne tgtR;
                     gRatio = srcG / orOne tgtG;
                     bRatio = srcB / orOne tgtB;
                     rAdj = clamp rRatio;
                     gAdj = clamp gRatio;
                     bAdj = clamp bRatio
                 in (case getImageData (canvas this) 0 0 width height of
                       Inl e \<Rightarrow> this
                     | Inr imageData \<Rightarrow>
                         this\<lparr>canvas := putImageData (canvas this)
                                 (imageData\<lparr>id_data :=
                                    map (adjustPixel rAdj gAdj bAdj) (id_data imageData)\<rparr>)\<rparr>)
            else this)))"

subsection \<open>applyFeathering\<close>

text \<open>
  The body of the inner loop for the pixel \<open>(x, y)\<close>; \<open>i / 4\<close> is the pixel's number.
  A typed array read out of range is \<open>undefined\<close>, and \<open>undefined > 0\<close> is false.
\<close>

definition featherPixel ::
  "real \<Rightarrow> real \<Rightarrow> real \<Rightarrow> real \<Rightarrow> nat \<Rightarrow> nat \<Rightarrow> nat \<Rightarrow> pixel list \<Rightarrow> pixel list" where
  "featherPixel centerX centerY featherStart feather width y x data =
     (let i = y * width + x in
      if i < length data \<and> px_a (data ! i) > 0
      then let dx = real x - centerX;
               dy = real y - centerY;
               dist = sqrt (dx * dx + dy * dy)
           in if dist > featherStart
              then let alpha = 1 - (dist - featherStart) / feather
                   in data[i := (data ! i)
                        \<lparr>px_a := ToUint8Clamp
                           (max 0 (min 255 (real (px_a (data ! i)) * max 0 alpha)))\<rparr>]
              else data
      else data)"

definition featherLoop ::
  "real \<Rightarrow> real \<Rightarrow> real \<Rightarrow> real \<Rightarrow> nat \<Rightarrow> nat \<Rightarrow> pixel list \<Rightarrow> pixel list" where
  "featherLoop centerX centerY featherStart feather width height data =
     fold (\<lambda>y d. fold (\<lambda>x d'. featherPixel centerX centerY featherStart feather width y x d')
                      [0..<width] d)
          [0..<height] data"

text \<open>The two \<open>forEach\<close> passes over the oval points.\<close>

definition ovalCenter :: "NormalizedLandmark list \<Rightarrow> nat \<Rightarrow> nat \<Rightarrow> real \<times> real" where
  "ovalCenter ovalPoints width height =
     (case fold (\<lambda>p (centerX, centerY).
                   (centerX + lm_x p * real width, centerY + lm_y p * real height))
                ovalPoints (0, 0) of
        (centerX, centerY) \<Rightarrow>
          (centerX / real (length ovalPoints), centerY / real (length ovalPoints)))"

definition ovalMaxDist :: "NormalizedLandmark list \<Rightarrow> nat \<Rightarrow> nat \<Rightarrow> real \<Rightarrow> real \<Rightarrow> real" where
  "ovalMaxDist ovalPoints width height centerX centerY =
     fold (\<lambda>p maxDist.
             let dx = lm_x p * real width - centerX;
                 dy = lm_y p * real height - centerY
             in max maxDist (sqrt (dx * dx + dy * dy)))
          ovalPoints 0"

text \<open>
  \<open>applyFeathering\<close> has no \<open>try\<close>: an exception of \<open>getImageData\<close> leaves the method.
\<close>

definition applyFeathering ::
  "FaceSwapEngine \<Rightarrow> NormalizedLandmark FaceDetection \<Rightarrow> nat \<Rightarrow> nat
     \<Rightarrow> error + FaceSwapEngine" where
  "applyFeathering this face width height =
     (let feather = featherAmount (options this) in
      if feather \<le> 0 then Inr this
      else let ovalPoints = faceOval face in
      if length ovalPoints = 0 then Inr this
      else case ovalCenter ovalPoints width height of
        (centerX, centerY) \<Rightarrow>
          (case getImageData (canvas this) 0 0 width height of
             Inl e \<Rightarrow> Inl e
           | Inr imageData \<Rightarrow>
               let maxDist = ovalMaxDist ovalPoints width height centerX centerY;
                   featherStart = maxDist - feather;
                   data = featherLoop centerX centerY featherStart feather width height
                            (id_data imageData)
               in Inr (this\<lparr>canvas :=
                         putImageData (canvas this) (imageData\<lparr>id_data := data\<rparr>)\<rparr>)))"

subsection \<open>processFrame\<close>

text \<open>
  The result of a call: the exception that left the method, if any, and the engine
  and the output canvas as the call left them.
\<close>

record FrameResult =
  thrown :: "error option"
  engine_after :: FaceSwapEngine
  output_after :: Bitmap

text \<open>
  In \<open>processFrame\<close> a quotient with a zero denominator (\<open>faceH = 0\<close>, or a target of
  height 0) is infinite or NaN in JavaScript and 0 here. It only arises where nothing
  is drawn whatever the quotient is: a zero \<open>faceH\<close> makes the clipping ellipse empty,
  and an image without pixels paints nothing.
\<close>

text \<open>The first statement: the video frame drawn over the whole output canvas.\<close>

definition drawVideoFrame :: "Bitmap \<Rightarrow> Bitmap \<Rightarrow> Bitmap" where
  "drawVideoFrame sourceVideo outputCanvas =
     drawImage outputCanvas NoClip 1 sourceVideo 0 0
       (real (bm_width outputCanvas)) (real (bm_height outputCanvas))"

definition processFrame ::
  "FaceSwapEngine \<Rightarrow> Bitmap \<Rightarrow> NormalizedLandmark FaceDetection option \<Rightarrow> Bitmap
     \<Rightarrow> FrameResult" where
  "processFrame this sourceVideo sourceFace outputCanvas =
     (let width = bm_width outputCanvas;
          height = bm_height outputCanvas;
          out1 = drawVideoFrame sourceVideo outputCanvas
      in case (sourceFace, targetFaceImage this) of
           (None, _) \<Rightarrow> \<lparr>thrown = None, engine_after = this, output_after = out1\<rparr>
         | (Some face, None) \<Rightarrow> \<lparr>thrown = None, engine_after = this, output_after = out1\<rparr>
         | (Some face, Some target) \<Rightarrow>
       (let faceBox = boundingBox face;
            padding = 0.15;
            faceX = (box_x faceBox - box_width faceBox * padding) * real width;
            faceY = (box_y faceBox - box_height faceBox * padding) * real height;
            faceW = box_width faceBox * (1 + padding * 2) * real width;
            faceH = box_height faceBox * (1 + padding * 2) * real height;
            cleared = clearRect (set_canvas_height (set_canvas_width (canvas this) width) height)
                        0 0 (real width) (real height);
            this1 = this\<lparr>canvas := cleared\<rparr>;
            centerX = faceX + faceW / 2;
            centerY = faceY + faceH / 2
        in case ellipse centerX centerY (faceW * 0.42) (faceH * 0.48) of
             Inl e \<Rightarrow> \<lparr>thrown = Some e, engine_after = this1, output_after = out1\<rparr>
           | Inr clip \<Rightarrow>
         (let targetAspect = real (bm_width (img_bitmap target))
                               / real (bm_height (img_bitmap target));
              sourceAspect = faceW / faceH;
              drawW = faceW * 1.1;
              drawH = faceH * 1.1;
              drawX = faceX - faceW * 0.05;
              drawY = faceY - faceH * 0.05;
              drawH' = (if targetAspect > sourceAspect then drawW / targetAspect else drawH);
              drawY' = (if targetAspect > sourceAspect then faceY + (faceH - drawH') / 2
                        else drawY);
              drawW' = (if targetAspect > sourceAspect then drawW else drawH * targetAspect);
              drawX' = (if targetAspect > sourceAspect then drawX
                        else faceX + (faceW - drawW') / 2);
              this2 = this1\<lparr>canvas :=
                        drawImage cleared clip (set_globalAlpha 1 (blendAmount (options this)))
                          (img_bitmap target) drawX' drawY' drawW' drawH'\<rparr>;
              this3 = (if colorCorrection (options this)
                       then applyColorCorrection this2 sourceVideo width height
                       else this2)
          in case applyFeathering this3 face width height of
               Inl e \<Rightarrow> \<lparr>thrown = Some e, engine_after = this3, output_after = out1\<rparr>
             | Inr this4 \<Rightarrow>
                 (case drawCanvas out1 (canvas this4) of
                    Inl e \<Rightarrow> \<lparr>thrown = Some e, engine_after = this4, output_after = out1\<rparr>
                  | Inr out2 \<Rightarrow> \<lparr>thrown = None, engine_after = this4, output_after = out2\<rparr>))))"

section \<open>Notions used to state the properties\<close>

text \<open>
  Reachable engines hold a target that is origin-clean: \<open>onload\<close> only ever installs an
  image fetched with \<open>crossOrigin = 'anonymous'\<close>.
\<close>

definition engine_ok :: "FaceSwapEngine \<Rightarrow> bool" where
  "engine_ok this =
     (case targetFaceImage this of None \<Rightarrow> True | Some t \<Rightarrow> bm_originClean (img_bitmap t))"

text \<open>
  The feathering step in the words of its description: the centroid of the outline in
  pixel space, the largest distance from it to an outline point, and what becomes of
  the pixel at \<open>(x, y)\<close>: a pixel with alpha above 0 that is further from the centroid
  than \<open>maxDist - feather\<close> has its alpha multiplied by a factor that falls linearly
  from 1 at that distance to 0 at \<open>maxDist\<close>; every other pixel stays.
\<close>

definition euclid :: "real \<Rightarrow> real \<Rightarrow> real \<Rightarrow> real \<Rightarrow> real" where
  "euclid x1 y1 x2 y2 = sqrt ((x1 - x2)\<^sup>2 + (y1 - y2)\<^sup>2)"

definition outlineCentroid :: "NormalizedLandmark list \<Rightarrow> nat \<Rightarrow> nat \<Rightarrow> real \<times> real" where
  "outlineCentroid pts width height =
     (sum_list (map (\<lambda>p. lm_x p * real width) pts) / real (length pts),
      sum_list (map (\<lambda>p. lm_y p * real height) pts) / real (length pts))"

definition outlineMaxDist ::
  "NormalizedLandmark list \<Rightarrow> nat \<Rightarrow> nat \<Rightarrow> real \<times> real \<Rightarrow> real" where
  "outlineMaxDist pts width height c =
     Max ((\<lambda>p. euclid (lm_x p * real width) (lm_y p * real height) (fst c) (snd c)) ` set pts)"

definition featheredPixel ::
  "real \<times> real \<Rightarrow> real \<Rightarrow> real \<Rightarrow> nat \<Rightarrow> nat \<Rightarrow> pixel \<Rightarrow> pixel" where
  "featheredPixel c maxDist feather x y p =
     (let dist = euclid (real x) (real y) (fst c) (snd c) in
      if px_a p > 0 \<and> dist > maxDist - feather
      then p\<lparr>px_a := ToUint8Clamp
                 (max 0 (min 255 (real (px_a p) * max 0 ((maxDist - dist) / feather))))\<rparr>
      else p)"

text \<open>
  The scratch canvas after the feathering step: as it was when \<open>featherAmount\<close> is not
  positive or the outline is empty, and otherwise holding, at every position, what a
  canvas keeps of the feathered pixel.
\<close>

definition featheredCanvas ::
  "NormalizedLandmark list \<Rightarrow> real \<Rightarrow> nat \<Rightarrow> nat \<Rightarrow> Bitmap \<Rightarrow> Bitmap" where
  "featheredCanvas pts feather width height cv =
     (if feather \<le> 0 \<or> pts = [] then cv
      else let c = outlineCentroid pts width height;
               maxDist = outlineMaxDist pts width height c
           in cv\<lparr>bm_pixels :=
                   map (\<lambda>k. canvasPixel (featheredPixel c maxDist feather (k mod width) (k div width)
                                            (bm_pixels cv ! k)))
                       [0..<width * height]\<rparr>)"

text \<open>
  The colour correction in the words of its description: the source frame at the size
  of the canvas, the 50 by 50 block in the centre of a surface (transparent black where
  the block leaves the surface), the mean of a channel over a block, and the clamped
  ratio of two means with a zero denominator read as 1.
\<close>

definition scaledFrame :: "Bitmap \<Rightarrow> nat \<Rightarrow> nat \<Rightarrow> Bitmap" where
  "scaledFrame sourceVideo width height =
     drawImage (createCanvas width height) NoClip 1 sourceVideo 0 0 (real width) (real height)"

definition centreBlock :: "Bitmap \<Rightarrow> nat \<Rightarrow> nat \<Rightarrow> pixel list" where
  "centreBlock cv width height =
     map (\<lambda>k. pixelAt cv (to_long (real width / 2 - 25) + int (k mod 50))
                          (to_long (real height / 2 - 25) + int (k div 50)))
         [0..<2500]"

definition channelMean :: "(pixel \<Rightarrow> nat) \<Rightarrow> pixel list \<Rightarrow> real" where
  "channelMean channel block = sum_list (map (\<lambda>p. real (channel p)) block) / real (length block)"

definition channelRatio :: "real \<Rightarrow> real \<Rightarrow> real" where
  "channelRatio sourceMean scratchMean =
     min 1.5 (max 0.5 (sourceMean / (if scratchMean = 0 then 1 else scratchMean)))"

text \<open>
  The scratch canvas after a colour correction that could read its pixels: the channels
  of every pixel with alpha above 0 are multiplied by the ratios of the block means,
  capped at 255 and rounded to a byte, and the canvas holds what it keeps of the
  result. The step applies the correction when it is enabled and both the source frame
  and the scratch canvas can be read back, and leaves the canvas as it was otherwise.
\<close>

definition correctedCanvas :: "Bitmap \<Rightarrow> nat \<Rightarrow> nat \<Rightarrow> Bitmap \<Rightarrow> Bitmap" where
  "correctedCanvas sourceVideo width height cv =
     (let src = centreBlock (scaledFrame sourceVideo width height) width height;
          tgt = centreBlock cv width height;
          rRatio = channelRatio (channelMean px_r src) (channelMean px_r tgt);
          gRatio = channelRatio (channelMean px_g src) (channelMean px_g tgt);
          bRatio = channelRatio (channelMean px_b src) (channelMean px_b tgt)
      in cv\<lparr>bm_pixels :=
              map (\<lambda>p. canvasPixel
                         (if 0 < px_a p
                          then \<lparr>px_r = ToUint8Clamp (min 255 (real (px_r p) * rRatio)),
                                px_g = ToUint8Clamp (min 255 (real (px_g p) * gRatio)),
                                px_b = ToUint8Clamp (min 255 (real (px_b p) * bRatio)),
                                px_a = px_a p\<rparr>
                          else p))
                  (bm_pixels cv)\<rparr>)"

definition correctionStep :: "bool \<Rightarrow> Bitmap \<Rightarrow> nat \<Rightarrow> nat \<Rightarrow> Bitmap \<Rightarrow> Bitmap" where
  "correctionStep enabled sourceVideo width height cv =
     (if enabled \<and> bm_originClean sourceVideo \<and> bm_originClean cv
      then correctedCanvas sourceVideo width height cv
      else cv)"

text \<open>
  The clipping ellipse in terms of the bounding box: its centre is the centre of the
  box, and its radii are 42% and 48% of the width and the height of the box enlarged
  by the padding of 15% on every side, all scaled to the canvas.
\<close>

definition faceEllipse :: "BoundingBox \<Rightarrow> nat \<Rightarrow> nat \<Rightarrow> clipRegion" where
  "faceEllipse faceBox width height =
     EllipseClip ((box_x faceBox + box_width faceBox / 2) * real width)
                 ((box_y faceBox + box_height faceBox / 2) * real height)
                 (box_width faceBox * 1.3 * real width * 0.42)
                 (box_height faceBox * 1.3 * real height * 0.48)"

text \<open>
  The stages of \<open>processFrame\<close> once a face and a target are there, named so that its
  properties can be stated: the clipping ellipse, the scratch canvas after the target
  is drawn, the optional colour correction, and the feathering with the final
  composite.
\<close>

definition overlayClip :: "BoundingBox \<Rightarrow> nat \<Rightarrow> nat \<Rightarrow> error + clipRegion" where
  "overlayClip faceBox width height =
     (let padding = 0.15;
          faceX = (box_x faceBox - box_width faceBox * padding) * real width;
          faceY = (box_y faceBox - box_height faceBox * padding) * real height;
          faceW = box_width faceBox * (1 + padding * 2) * real width;
          faceH = box_height faceBox * (1 + padding * 2) * real height
      in ellipse (faceX + faceW / 2) (faceY + faceH / 2) (faceW * 0.42) (faceH * 0.48))"

definition overlayDrawn ::
  "real \<Rightarrow> Bitmap \<Rightarrow> BoundingBox \<Rightarrow> nat \<Rightarrow> nat \<Rightarrow> clipRegion \<Rightarrow> Bitmap" where
  "overlayDrawn blend target faceBox width height clip =
     (let padding = 0.15;
          faceX = (box_x faceBox - box_width faceBox * padding) * real width;
          faceY = (box_y faceBox - box_height faceBox * padding) * real height;
          faceW = box_width faceBox * (1 + padding * 2) * real width;
          faceH = box_height faceBox * (1 + padding * 2) * real height;
          targetAspect = real (bm_width target) / real (bm_height target);
          sourceAspect = faceW / faceH;
          drawW = faceW * 1.1;
          drawH = faceH * 1.1;
          drawX = faceX - faceW * 0.05;
          drawY = faceY - faceH * 0.05;
          drawH' = (if targetAspect > sourceAspect then drawW / targetAspect else drawH);
          drawY' = (if targetAspect > sourceAspect then faceY + (faceH - drawH') / 2 else drawY);
          drawW' = (if targetAspect > sourceAspect then drawW else drawH * targetAspect);
          drawX' = (if targetAspect > sourceAspect then drawX else faceX + (faceW - drawW') / 2)
      in drawImage (createCanvas width height) clip (set_globalAlpha 1 blend)
           target drawX' drawY' drawW' drawH')"

definition colorStage :: "bool \<Rightarrow> FaceSwapEngine \<Rightarrow> Bitmap \<Rightarrow> nat \<Rightarrow> nat \<Rightarrow> FaceSwapEngine" where
  "colorStage enabled this2 sourceVideo width height =
     (if enabled then applyColorCorrection this2 sourceVideo width height else this2)"

definition finishFrame ::
  "FaceSwapEngine \<Rightarrow> NormalizedLandmark FaceDetection \<Rightarrow> Bitmap \<Rightarrow> FrameResult" where
  "finishFrame this3 face out1 =
     (case applyFeathering this3 face (bm_width out1) (bm_height out1) of
        Inl e \<Rightarrow> \<lparr>thrown = Some e, engine_after = this3, output_after = out1\<rparr>
      | Inr this4 \<Rightarrow>
          (case drawCanvas out1 (canvas this4) of
             Inl e \<Rightarrow> \<lparr>thrown = Some e, engine_after = this4, output_after = out1\<rparr>
           | Inr out2 \<Rightarrow> \<lparr>thrown = None, engine_after = this4, output_after = out2\<rparr>))"

section \<open>Example inputs\<close>

text \<open>
  Two preset faces, a red one-pixel target image, a blue one-pixel video frame (and the
  same frame not origin-clean), a black one, an engine that has loaded the red target,
  a face whose box is the whole frame and whose oval is empty, and the state after two
  loads and a clear with neither load resolved. Then a face whose box reaches one
  frame beyond the frame on every side, so that its ellipse and the image drawn into
  it cover every pixel of the frame entirely; the same face with an outline of two
  points; the red pixel at the opacity 0.95; and a row of pixels as a bitmap.
\<close>

definition example_faceA :: PresetFace where
  "example_faceA = \<lparr>face_id = ''a'', face_name = ''A'', imageUrl = ''a.png'', thumbnailUrl = ''a.png''\<rparr>"
definition example_faceB :: PresetFace where
  "example_faceB = \<lparr>face_id = ''b'', face_name = ''B'', imageUrl = ''b.png'', thumbnailUrl = ''b.png''\<rparr>"

definition example_red :: Bitmap where
  "example_red = \<lparr>bm_width = 1, bm_height = 1,
     bm_pixels = [\<lparr>px_r = 255, px_g = 0, px_b = 0, px_a = 255\<rparr>], bm_originClean = True\<rparr>"
definition example_blue :: Bitmap where
  "example_blue = \<lparr>bm_width = 1, bm_height = 1,
     bm_pixels = [\<lparr>px_r = 0, px_g = 0, px_b = 255, px_a = 255\<rparr>], bm_originClean = True\<rparr>"

definition example_tainted :: Bitmap where
  "example_tainted = example_blue\<lparr>bm_originClean := False\<rparr>"

definition example_black :: Bitmap where
  "example_black = \<lparr>bm_width = 1, bm_height = 1,
     bm_pixels = [\<lparr>px_r = 0, px_g = 0, px_b = 0, px_a = 255\<rparr>], bm_originClean = True\<rparr>"

definition example_engine :: FaceSwapEngine where
  "example_engine = engine (run [Call_loadTargetFace example_faceA, Fire_onload 0 example_red] new_Page)"

definition example_face :: "NormalizedLandmark FaceDetection" where
  "example_face = \<lparr>landmarks = [], boundingBox = \<lparr>box_x = 0, box_y = 0, box_width = 1, box_height = 1\<rparr>,
     faceOval = [], leftEye = [], rightEye = [], lips = [], noseTip = \<lparr>lm_x = 0.5, lm_y = 0.5, lm_z = 0\<rparr>\<rparr>"

definition example_page :: Page where
  "example_page =
     run [Call_loadTargetFace example_faceA, Call_loadTargetFace example_faceB,
          Call_clearTargetFace] new_Page"

definition example_covering_face :: "NormalizedLandmark FaceDetection" where
  "example_covering_face =
     example_face\<lparr>boundingBox := \<lparr>box_x = - 1, box_y = - 1, box_width = 3, box_height = 3\<rparr>\<rparr>"

definition example_outlined_face :: "NormalizedLandmark FaceDetection" where
  "example_outlined_face =
     example_covering_face
       \<lparr>faceOval := [\<lparr>lm_x = 0, lm_y = 0, lm_z = 0\<rparr>, \<lparr>lm_x = 4 / 3, lm_y = 0, lm_z = 0\<rparr>]\<rparr>"

definition example_veil :: pixel where
  "example_veil = \<lparr>px_r = 255, px_g = 0, px_b = 0, px_a = 242\<rparr>"

definition example_row :: "pixel list \<Rightarrow> Bitmap" where
  "example_row ps = \<lparr>bm_width = length ps, bm_height = 1, bm_pixels = ps, bm_originClean = True\<rparr>"

section \<open>Properties of the generator\<close>

lemma length_js_assign_in_range:
  "i < length arr \<Longrightarrow> length (js_assign arr i v) = length arr"
  by (simp add: js_assign_def)

lemma defined_js_assign_in_range:
  assumes "i < length arr" and "None \<notin> set arr" and "v \<noteq> None"
  shows "None \<notin> set (js_assign arr i v)"
proof -
  have "set (arr[i := v]) \<subseteq> insert v (set arr)"
    by (rule set_update_subset_insert)
  with assms show ?thesis
    by (auto simp: js_assign_def)
qed

lemma fold_assign_keeps:
  assumes "\<forall>p \<in> set ps. snd p < length arr \<and> f (fst p) \<noteq> None"
    and "None \<notin> set arr"
  shows "length (fold (\<lambda>(i, idx) acc. js_assign acc idx (f i)) ps arr) = length arr
       \<and> None \<notin> set (fold (\<lambda>(i, idx) acc. js_assign acc idx (f i)) ps arr)"
  using assms
proof (induction ps arbitrary: arr)
  case Nil
  then show ?case by simp
next
  case (Cons p ps)
  obtain i idx where p: "p = (i, idx)" by (cases p)
  from Cons.prems p have idx: "idx < length arr" and fi: "f i \<noteq> None"
    by auto
  let ?arr = "js_assign arr idx (f i)"
  have len: "length ?arr = length arr"
    using idx by (rule length_js_assign_in_range)
  have def: "None \<notin> set ?arr"
    using idx Cons.prems(2) fi by (rule defined_js_assign_in_range)
  have "\<forall>q \<in> set ps. snd q < length ?arr \<and> f (fst q) \<noteq> None"
    using Cons.prems(1) len by simp
  from Cons.IH [OF this def] len p show ?case
    by simp
qed

lemma forEach_assign_keeps:
  assumes "\<forall>idx \<in> set indices. idx < length arr"
    and "\<forall>i < length indices. f i \<noteq> None"
    and "None \<notin> set arr"
  shows "length (forEach_assign indices f arr) = length arr
       \<and> None \<notin> set (forEach_assign indices f arr)"
proof -
  have "\<forall>p \<in> set (List.enumerate 0 indices). snd p < length arr \<and> f (fst p) \<noteq> None"
    using assms(1,2) by (auto simp: in_set_enumerate_eq)
  from fold_assign_keeps [OF this assms(3)] show ?thesis
    by (simp add: forEach_assign_def)
qed

lemma FACE_OVAL_INDICES_bound: "\<forall>idx \<in> set FACE_OVAL_INDICES. idx < 468"
  by (simp add: FACE_OVAL_INDICES_def)

lemma LEFT_EYE_INDICES_bound: "\<forall>idx \<in> set LEFT_EYE_INDICES. idx < 468"
  by (simp add: LEFT_EYE_INDICES_def)

lemma RIGHT_EYE_INDICES_bound: "\<forall>idx \<in> set RIGHT_EYE_INDICES. idx < 468"
  by (simp add: RIGHT_EYE_INDICES_def)

lemma LIPS_INDICES_bound: "\<forall>idx \<in> set LIPS_INDICES. idx < 468"
  by (simp add: LIPS_INDICES_def)

lemma placeholderLandmarks_ok:
  "length placeholderLandmarks = 468 \<and> None \<notin> set placeholderLandmarks"
  by (auto simp: placeholderLandmarks_def)

lemma ovalPoints_gen_ok: "length ovalPoints_gen = 36 \<and> None \<notin> set ovalPoints_gen"
  by (auto simp: ovalPoints_gen_def numPoints_def Let_def)

lemma ovalPoints_gen_read: "js_index ovalPoints_gen (i mod length ovalPoints_gen) \<noteq> None"
proof -
  have "i mod length ovalPoints_gen < length ovalPoints_gen"
    using ovalPoints_gen_ok by simp
  moreover have "\<forall>k < length ovalPoints_gen. ovalPoints_gen ! k \<noteq> None"
    using ovalPoints_gen_ok by (metis nth_mem)
  ultimately show ?thesis
    by (simp add: js_index_def)
qed

lemma landmarks_nose_ok: "length landmarks_nose = 468 \<and> None \<notin> set landmarks_nose"
proof -
  have "(1::nat) < length placeholderLandmarks"
    using placeholderLandmarks_ok by simp
  then show ?thesis
    unfolding landmarks_nose_def
    using placeholderLandmarks_ok length_js_assign_in_range defined_js_assign_in_range
    by (metis option.distinct(1))
qed

lemma landmarks_leftEye_ok:
  "length landmarks_leftEye = 468 \<and> None \<notin> set landmarks_leftEye"
  unfolding landmarks_leftEye_def
  using forEach_assign_keeps [of LEFT_EYE_INDICES landmarks_nose]
    landmarks_nose_ok LEFT_EYE_INDICES_bound
  by simp

lemma landmarks_rightEye_ok:
  "length landmarks_rightEye = 468 \<and> None \<notin> set landmarks_rightEye"
  unfolding landmarks_rightEye_def
  using forEach_assign_keeps [of RIGHT_EYE_INDICES landmarks_leftEye]
    landmarks_leftEye_ok RIGHT_EYE_INDICES_bound
  by simp

lemma landmarks_lips_ok:
  "length landmarks_lips = 468 \<and> None \<notin> set landmarks_lips"
  unfolding landmarks_lips_def
  using forEach_assign_keeps [of LIPS_INDICES landmarks_rightEye]
    landmarks_rightEye_ok LIPS_INDICES_bound
  by simp

lemma landmarks_final_ok:
  "length landmarks_final = 468 \<and> None \<notin> set landmarks_final"
  unfolding landmarks_final_def
  using forEach_assign_keeps [of FACE_OVAL_INDICES landmarks_lips]
    landmarks_lips_ok FACE_OVAL_INDICES_bound ovalPoints_gen_read
  by simp

lemma view_defined:
  assumes "\<forall>idx \<in> set indices. idx < 468"
  shows "None \<notin> set (map (\<lambda>i. js_index landmarks_final i) indices)"
proof
  assume "None \<in> set (map (\<lambda>i. js_index landmarks_final i) indices)"
  then obtain idx where idx: "idx \<in> set indices" and none: "js_index landmarks_final idx = None"
    by auto
  from idx assms have "idx < length landmarks_final"
    using landmarks_final_ok by simp
  then have "js_index landmarks_final idx \<in> set landmarks_final"
    by (simp add: js_index_def)
  with none landmarks_final_ok show False
    by simp
qed


section \<open>Claims about the generator\<close>

text \<open>
  C3 (as stated, refuted): the claim reads 0.35 and 0.45 as the half-width and the
  half-height of the assumed ellipse centred at (0.5, 0.45), so that the bounding box
  would be the rectangle around that ellipse. The generator's box is not that
  rectangle.
\<close>

theorem C3_boundingBox_not_half_axes:
  "boundingBox generateSimpleFaceDetection \<noteq> ellipse_bounds 0.5 0.45 0.35 0.45"
  by (simp add: generateSimpleFaceDetection_def ellipse_bounds_def
      centerX_gen_def centerY_gen_def faceWidth_def faceHeight_def)

text \<open>
  C3 (amended): the bounding box is assembled from the fixed constants only: it is
  centred at (0.5, 0.45) and 0.35 and 0.45 are its full width and full height, that is,
  it is the rectangle around the ellipse with half-axes 0.175 and 0.225, with corner
  (0.325, 0.225). No landmark is read to build it.
\<close>

theorem C3_boundingBox_fixed_constants:
  "boundingBox generateSimpleFaceDetection
     = \<lparr>box_x = 0.325, box_y = 0.225, box_width = 0.35, box_height = 0.45\<rparr>
   \<and> boundingBox generateSimpleFaceDetection = ellipse_bounds 0.5 0.45 0.175 0.225"
  by (simp add: generateSimpleFaceDetection_def ellipse_bounds_def
      centerX_gen_def centerY_gen_def faceWidth_def faceHeight_def)

text \<open>
  C6: the generated landmark sequence has exactly 468 entries, and the detection
  handed out by the hook is the same value whatever video element is passed in: the
  generator takes no input and reads no state.
\<close>

theorem C6_landmarks_468_and_input_independent:
  "length (landmarks generateSimpleFaceDetection) = 468
   \<and> useMediaPipe_processFrame True video1 = [generateSimpleFaceDetection]
   \<and> useMediaPipe_processFrame True video1 = useMediaPipe_processFrame True video2"
  using landmarks_final_ok
  by (simp add: generateSimpleFaceDetection_def useMediaPipe_processFrame_def)

text \<open>
  C10: every index of the landmark convention is below 468; the overwrites therefore
  never grow the landmark array (it keeps its 468 entries and has no hole), the read
  of the oval points is in range, and no derived view contains an undefined entry.
\<close>

theorem C10_indices_in_bounds:
  "length FACE_OVAL_INDICES = 36 \<and> list_all (\<lambda>idx. idx < 468) FACE_OVAL_INDICES
   \<and> length LEFT_EYE_INDICES = 6 \<and> list_all (\<lambda>idx. idx < 468) LEFT_EYE_INDICES
   \<and> length RIGHT_EYE_INDICES = 6 \<and> list_all (\<lambda>idx. idx < 468) RIGHT_EYE_INDICES
   \<and> length LIPS_INDICES = 11 \<and> list_all (\<lambda>idx. idx < 468) LIPS_INDICES
   \<and> NOSE_TIP_INDEX < 468
   \<and> length (landmarks generateSimpleFaceDetection) = 468
   \<and> None \<notin> set (landmarks generateSimpleFaceDetection)
   \<and> None \<notin> set (faceOval generateSimpleFaceDetection)
   \<and> None \<notin> set (leftEye generateSimpleFaceDetection)
   \<and> None \<notin> set (rightEye generateSimpleFaceDetection)
   \<and> None \<notin> set (lips generateSimpleFaceDetection)
   \<and> noseTip generateSimpleFaceDetection \<noteq> None"
proof -
  have idx: "length FACE_OVAL_INDICES = 36 \<and> list_all (\<lambda>idx. idx < 468) FACE_OVAL_INDICES
     \<and> length LEFT_EYE_INDICES = 6 \<and> list_all (\<lambda>idx. idx < 468) LEFT_EYE_INDICES
     \<and> length RIGHT_EYE_INDICES = 6 \<and> list_all (\<lambda>idx. idx < 468) RIGHT_EYE_INDICES
     \<and> length LIPS_INDICES = 11 \<and> list_all (\<lambda>idx. idx < 468) LIPS_INDICES
     \<and> NOSE_TIP_INDEX < 468"
    by (simp add: FACE_OVAL_INDICES_def LEFT_EYE_INDICES_def RIGHT_EYE_INDICES_def
        LIPS_INDICES_def NOSE_TIP_INDEX_def)
  have lm: "length (landmarks generateSimpleFaceDetection) = 468
     \<and> None \<notin> set (landmarks generateSimpleFaceDetection)"
    using landmarks_final_ok by (simp add: generateSimpleFaceDetection_def)
  have oval: "None \<notin> set (faceOval generateSimpleFaceDetection)"
    using view_defined [OF FACE_OVAL_INDICES_bound]
    by (simp add: generateSimpleFaceDetection_def)
  have le: "None \<notin> set (leftEye generateSimpleFaceDetection)"
    using view_defined [OF LEFT_EYE_INDICES_bound]
    by (simp add: generateSimpleFaceDetection_def)
  have re: "None \<notin> set (rightEye generateSimpleFaceDetection)"
    using view_defined [OF RIGHT_EYE_INDICES_bound]
    by (simp add: generateSimpleFaceDetection_def)
  have li: "None \<notin> set (lips generateSimpleFaceDetection)"
    using view_defined [OF LIPS_INDICES_bound]
    by (simp add: generateSimpleFaceDetection_def)
  have "None \<notin> set (map (\<lambda>i. js_index landmarks_final i) [NOSE_TIP_INDEX])"
    by (rule view_defined) (simp add: NOSE_TIP_INDEX_def)
  then have nose: "noseTip generateSimpleFaceDetection \<noteq> None"
    by (simp add: generateSimpleFaceDetection_def)
  from idx lm oval le re li nose show ?thesis
    by blast
qed

section \<open>Bitmaps: indices, read-back, blank canvases, copies\<close>

lemma pixel_index_bound:
  fixes x y w h :: nat
  assumes "x < w" and "y < h"
  shows "y * w + x < w * h"
proof -
  have "y * w + x < y * w + w"
    using assms(1) by simp
  also have "\<dots> = Suc y * w"
    by simp
  also have "\<dots> \<le> h * w"
    using assms(2) by (intro mult_le_mono1) simp
  finally show ?thesis
    by (simp add: mult.commute)
qed

lemma pixel_index_split:
  fixes k w h :: nat
  assumes "k < w * h"
  shows "k mod w < w" and "k div w < h" and "k div w * w + k mod w = k"
proof -
  from assms have w: "0 < w"
    by (cases w) auto
  then show "k mod w < w"
    by simp
  show "k div w < h"
    using assms w by (simp add: less_mult_imp_div_less mult.commute)
  show "k div w * w + k mod w = k"
    by simp
qed

lemma createCanvas_pixels:
  "length (bm_pixels (createCanvas w h)) = w * h"
  "k < w * h \<Longrightarrow> bm_pixels (createCanvas w h) ! k = transparentBlack"
  "bm_width (createCanvas w h) = w"
  "bm_height (createCanvas w h) = h"
  "bm_originClean (createCanvas w h)"
  by (simp_all add: createCanvas_def)

lemma ToUint8Clamp_byte: "n \<le> 255 \<Longrightarrow> ToUint8Clamp (real n) = n"
  by (auto simp: ToUint8Clamp_def Let_def)

lemma canvasPixel_transparent:
  "canvasPixel transparentBlack = transparentBlack"
  "px_a p = 0 \<Longrightarrow> canvasPixel p = transparentBlack"
  by (simp_all add: canvasPixel_def transparentBlack_def)

lemma canvasPixel_alpha: "px_a (canvasPixel p) = px_a p"
  by (simp add: canvasPixel_def transparentBlack_def)

lemma canvasPixel_opaque:
  assumes "px_a p = 255" and "px_r p \<le> 255" and "px_g p \<le> 255" and "px_b p \<le> 255"
  shows "canvasPixel p = p"
  using assms
  by (cases p) (simp add: canvasPixel_def premultiply_def unpremultiply_def ToUint8Clamp_byte)

lemma getImageData_full:
  assumes "bm_width cv = w" and "bm_height cv = h" and "length (bm_pixels cv) = w * h"
    and "bm_originClean cv" and "0 < w" and "0 < h"
  shows "getImageData cv 0 0 w h = Inr \<lparr>id_width = w, id_height = h, id_data = bm_pixels cv\<rparr>"
proof -
  have "map (\<lambda>k. pixelAt cv (to_long 0 + int (k mod w)) (to_long 0 + int (k div w))) [0..<w * h]
        = bm_pixels cv"
  proof (rule nth_equalityI)
    show "length (map (\<lambda>k. pixelAt cv (to_long 0 + int (k mod w)) (to_long 0 + int (k div w)))
            [0..<w * h]) = length (bm_pixels cv)"
      using assms(3) by simp
  next
    fix k
    assume "k < length (map (\<lambda>k. pixelAt cv (to_long 0 + int (k mod w))
                (to_long 0 + int (k div w))) [0..<w * h])"
    then have k: "k < w * h"
      by simp
    note s = pixel_index_split [OF k]
    show "map (\<lambda>k. pixelAt cv (to_long 0 + int (k mod w)) (to_long 0 + int (k div w)))
            [0..<w * h] ! k = bm_pixels cv ! k"
      using k s assms(1,2) by (simp add: pixelAt_def to_long_def)
  qed
  with assms show ?thesis
    by (simp add: getImageData_def)
qed

lemma putImageData_full:
  assumes "bm_width cv = w" and "length (bm_pixels cv) = w * h"
    and "id_width d = w" and "id_height d = h" and "length (id_data d) = w * h"
  shows "putImageData cv d = cv\<lparr>bm_pixels := map canvasPixel (id_data d)\<rparr>"
proof -
  have "map (\<lambda>k. let x = k mod bm_width cv; y = k div bm_width cv in
                    if x < id_width d \<and> y < id_height d
                    then canvasPixel (id_data d ! (y * id_width d + x))
                    else bm_pixels cv ! k)
              [0..<length (bm_pixels cv)] = map canvasPixel (id_data d)"
  proof (rule nth_equalityI)
    show "length (map (\<lambda>k. let x = k mod bm_width cv; y = k div bm_width cv in
                    if x < id_width d \<and> y < id_height d
                    then canvasPixel (id_data d ! (y * id_width d + x))
                    else bm_pixels cv ! k)
              [0..<length (bm_pixels cv)]) = length (map canvasPixel (id_data d))"
      using assms by simp
  next
    fix k
    assume "k < length (map (\<lambda>k. let x = k mod bm_width cv; y = k div bm_width cv in
                    if x < id_width d \<and> y < id_height d
                    then canvasPixel (id_data d ! (y * id_width d + x))
                    else bm_pixels cv ! k)
              [0..<length (bm_pixels cv)])"
    then have k: "k < w * h"
      using assms(2) by simp
    note s = pixel_index_split [OF k]
    show "map (\<lambda>k. let x = k mod bm_width cv; y = k div bm_width cv in
                    if x < id_width d \<and> y < id_height d
                    then canvasPixel (id_data d ! (y * id_width d + x))
                    else bm_pixels cv ! k)
              [0..<length (bm_pixels cv)] ! k = map canvasPixel (id_data d) ! k"
      using k s assms by (simp add: Let_def)
  qed
  then show ?thesis
    by (simp add: putImageData_def)
qed

lemma putImageData_wf:
  "bm_width (putImageData cv d) = bm_width cv"
  "bm_height (putImageData cv d) = bm_height cv"
  "length (bm_pixels (putImageData cv d)) = length (bm_pixels cv)"
  "bm_originClean (putImageData cv d) = bm_originClean cv"
  by (simp_all add: putImageData_def)

lemma clearRect_createCanvas: "clearRect (createCanvas w h) x y rw rh = createCanvas w h"
proof -
  let ?cv = "createCanvas w h"
  have "map (\<lambda>k. let px = pixelCentreX (bm_width ?cv) k; py = pixelCentreY (bm_width ?cv) k in
                  if x \<le> px \<and> px < x + rw \<and> y \<le> py \<and> py < y + rh
                  then transparentBlack else bm_pixels ?cv ! k)
            [0..<length (bm_pixels ?cv)] = bm_pixels ?cv"
    by (rule nth_equalityI) (simp_all add: Let_def createCanvas_pixels)
  then show ?thesis
    unfolding clearRect_def by simp
qed

lemma cleared_canvas:
  "clearRect (set_canvas_height (set_canvas_width cv w) h) x y rw rh = createCanvas w h"
  by (simp add: set_canvas_height_def set_canvas_width_def clearRect_createCanvas)
     (simp add: createCanvas_def)

lemma pixelAt_createCanvas: "pixelAt (createCanvas w h) x y = transparentBlack"
proof (cases "0 \<le> x \<and> x < int w \<and> 0 \<le> y \<and> y < int h")
  case True
  then have "nat x < w" and "nat y < h"
    by linarith+
  then have "nat y * w + nat x < w * h"
    by (rule pixel_index_bound)
  then show ?thesis
    by (simp add: pixelAt_def createCanvas_def)
next
  case False
  then show ?thesis
    by (auto simp: pixelAt_def createCanvas_def)
qed

lemma pixelAt_cases:
  assumes "length (bm_pixels cv) = bm_width cv * bm_height cv"
  shows "pixelAt cv x y \<in> insert transparentBlack (set (bm_pixels cv))"
proof (cases "0 \<le> x \<and> x < int (bm_width cv) \<and> 0 \<le> y \<and> y < int (bm_height cv)")
  case True
  then have "nat x < bm_width cv" and "nat y < bm_height cv"
    by linarith+
  then have "nat y * bm_width cv + nat x < length (bm_pixels cv)"
    unfolding assms by (rule pixel_index_bound)
  with True show ?thesis
    by (simp add: pixelAt_def)
next
  case False
  then show ?thesis
    by (auto simp: pixelAt_def)
qed

lemma samplePixel_index:
  assumes "samplePixel src dx dy dw dh px py = Some s"
  shows "\<exists>i < bm_width src * bm_height src. s = bm_pixels src ! i"
proof -
  let ?u = "min (bm_width src - 1) (nat \<lfloor>(px - dx) / dw * real (bm_width src)\<rfloor>)"
  let ?v = "min (bm_height src - 1) (nat \<lfloor>(py - dy) / dh * real (bm_height src)\<rfloor>)"
  from assms have pos: "0 < bm_width src" "0 < bm_height src"
    and s: "s = bm_pixels src ! (?v * bm_width src + ?u)"
    by (auto simp: samplePixel_def Let_def split: if_splits)
  have "?u < bm_width src" and "?v < bm_height src"
    using pos by linarith+
  then have "?v * bm_width src + ?u < bm_width src * bm_height src"
    by (rule pixel_index_bound)
  with s show ?thesis
    by blast
qed

lemma sourceOver_transparent: "sourceOver 0 s d = d"
  by (simp add: sourceOver_def)

lemma sourceOver_transparent_source: "px_a s = 0 \<Longrightarrow> sourceOver ga s d = d"
  by (simp add: sourceOver_def)

lemma sourceOver_opaque:
  assumes "px_a s = 255" and "px_r s \<le> 255" and "px_g s \<le> 255" and "px_b s \<le> 255"
  shows "sourceOver 1 s d = s"
proof -
  have "ToUint8Clamp 255 = 255"
    by (simp add: ToUint8Clamp_def)
  with assms have "sourceOver 1 s d = canvasPixel s"
    by (cases s) (simp add: sourceOver_def Let_def ToUint8Clamp_byte)
  with assms show ?thesis
    by (simp add: canvasPixel_opaque)
qed

lemma floor_pixel_centre: "\<lfloor>real n + 1 / 2\<rfloor> = int n"
  by linarith

lemma samplePixel_same_size:
  assumes "k < w * h" and "bm_width src = w" and "bm_height src = h"
  shows "samplePixel src 0 0 (real w) (real h) (pixelCentreX w k) (pixelCentreY w k)
         = Some (bm_pixels src ! k)"
proof -
  note s = pixel_index_split [OF assms(1)]
  from assms(1) have pos: "0 < w" "0 < h"
    by (cases w; cases h; simp)+
  have x: "real (k mod w) + 1 / 2 < real w"
    using s(1) by linarith
  have y: "real (k div w) + 1 / 2 < real h"
    using s(2) by linarith
  have u: "nat \<lfloor>(real (k mod w) + 1 / 2) / real w * real w\<rfloor> = k mod w"
    using pos by (simp add: floor_pixel_centre)
  have v: "nat \<lfloor>(real (k div w) + 1 / 2) / real h * real h\<rfloor> = k div w"
    using pos by (simp add: floor_pixel_centre)
  have "min (w - 1) (k mod w) = k mod w" and "min (h - 1) (k div w) = k div w"
    using s by linarith+
  then show ?thesis
    using pos x y s(3) assms(2,3)
    by (simp add: samplePixel_def pixelCentreX_def pixelCentreY_def Let_def u v)
qed

lemma drawImage_alpha_zero:
  assumes "bm_originClean src"
  shows "drawImage dst clip 0 src dx dy dw dh = dst"
proof -
  have "map (\<lambda>k. let px = pixelCentreX (bm_width dst) k; py = pixelCentreY (bm_width dst) k in
                  if insideClip clip px py
                  then (case samplePixel src dx dy dw dh px py of
                          None \<Rightarrow> bm_pixels dst ! k
                        | Some s \<Rightarrow> sourceOver 0 s (bm_pixels dst ! k))
                  else bm_pixels dst ! k)
            [0..<length (bm_pixels dst)] = bm_pixels dst"
    by (rule nth_equalityI) (simp_all add: Let_def sourceOver_transparent split: option.split)
  with assms show ?thesis
    by (simp add: drawImage_def)
qed

lemma drawVideoFrame_size:
  "bm_width (drawVideoFrame sourceVideo outputCanvas) = bm_width outputCanvas"
  "bm_height (drawVideoFrame sourceVideo outputCanvas) = bm_height outputCanvas"
  by (simp_all add: drawVideoFrame_def drawImage_def)

lemma drawVideoFrame_copy:
  assumes "bm_width sourceVideo = bm_width outputCanvas"
    and "bm_height sourceVideo = bm_height outputCanvas"
    and "length (bm_pixels sourceVideo) = bm_width outputCanvas * bm_height outputCanvas"
    and "length (bm_pixels outputCanvas) = bm_width outputCanvas * bm_height outputCanvas"
    and "\<forall>p \<in> set (bm_pixels sourceVideo).
           px_a p = 255 \<and> px_r p \<le> 255 \<and> px_g p \<le> 255 \<and> px_b p \<le> 255"
  shows "bm_pixels (drawVideoFrame sourceVideo outputCanvas) = bm_pixels sourceVideo"
proof (rule nth_equalityI)
  show "length (bm_pixels (drawVideoFrame sourceVideo outputCanvas))
        = length (bm_pixels sourceVideo)"
    using assms(3,4) by (simp add: drawVideoFrame_def drawImage_def)
next
  fix k
  assume "k < length (bm_pixels (drawVideoFrame sourceVideo outputCanvas))"
  then have k: "k < bm_width outputCanvas * bm_height outputCanvas"
    using assms(4) by (simp add: drawVideoFrame_def drawImage_def)
  then have "bm_pixels sourceVideo ! k \<in> set (bm_pixels sourceVideo)"
    using assms(3) by simp
  with assms(5) have "sourceOver 1 (bm_pixels sourceVideo ! k) d = bm_pixels sourceVideo ! k" for d
    by (intro sourceOver_opaque) blast+
  then show "bm_pixels (drawVideoFrame sourceVideo outputCanvas) ! k = bm_pixels sourceVideo ! k"
    using k assms(4) samplePixel_same_size [OF k assms(1,2)]
    by (simp add: drawVideoFrame_def drawImage_def Let_def)
qed

lemma drawCanvas_blank:
  "drawCanvas dst (createCanvas w h) = Inr dst
   \<or> (\<exists>e. drawCanvas dst (createCanvas w h) = Inl e)"
proof (cases "w = 0 \<or> h = 0")
  case True
  then show ?thesis
    by (auto simp: drawCanvas_def createCanvas_def)
next
  case False
  have px: "bm_pixels (createCanvas w h) ! i = transparentBlack" if "i < w * h" for i
    using that by (simp add: createCanvas_def)
  have "map (\<lambda>k. let px = pixelCentreX (bm_width dst) k; py = pixelCentreY (bm_width dst) k in
                  if insideClip NoClip px py
                  then (case samplePixel (createCanvas w h) 0 0 (real w) (real h) px py of
                          None \<Rightarrow> bm_pixels dst ! k
                        | Some s \<Rightarrow> sourceOver 1 s (bm_pixels dst ! k))
                  else bm_pixels dst ! k)
            [0..<length (bm_pixels dst)] = bm_pixels dst"
  proof (rule nth_equalityI)
    show "length (map (\<lambda>k. let px = pixelCentreX (bm_width dst) k; py = pixelCentreY (bm_width dst) k in
                  if insideClip NoClip px py
                  then (case samplePixel (createCanvas w h) 0 0 (real w) (real h) px py of
                          None \<Rightarrow> bm_pixels dst ! k
                        | Some s \<Rightarrow> sourceOver 1 s (bm_pixels dst ! k))
                  else bm_pixels dst ! k)
            [0..<length (bm_pixels dst)]) = length (bm_pixels dst)"
      by simp
  next
    fix k
    assume "k < length (map (\<lambda>k. let px = pixelCentreX (bm_width dst) k; py = pixelCentreY (bm_width dst) k in
                  if insideClip NoClip px py
                  then (case samplePixel (createCanvas w h) 0 0 (real w) (real h) px py of
                          None \<Rightarrow> bm_pixels dst ! k
                        | Some s \<Rightarrow> sourceOver 1 s (bm_pixels dst ! k))
                  else bm_pixels dst ! k)
            [0..<length (bm_pixels dst)])"
    then have k: "k < length (bm_pixels dst)"
      by simp
    have "px_a s = 0"
      if "samplePixel (createCanvas w h) 0 0 (real w) (real h) px py = Some s" for s px py
    proof -
      from samplePixel_index [OF that] obtain i where "i < w * h"
        and "s = bm_pixels (createCanvas w h) ! i"
        by (auto simp: createCanvas_pixels)
      then show ?thesis
        by (simp add: createCanvas_pixels transparentBlack_def)
    qed
    then show "map (\<lambda>k. let px = pixelCentreX (bm_width dst) k; py = pixelCentreY (bm_width dst) k in
                  if insideClip NoClip px py
                  then (case samplePixel (createCanvas w h) 0 0 (real w) (real h) px py of
                          None \<Rightarrow> bm_pixels dst ! k
                        | Some s \<Rightarrow> sourceOver 1 s (bm_pixels dst ! k))
                  else bm_pixels dst ! k)
            [0..<length (bm_pixels dst)] ! k = bm_pixels dst ! k"
      using k by (simp add: Let_def sourceOver_transparent_source split: option.split)
  qed
  then have "drawImage dst NoClip 1 (createCanvas w h) 0 0 (real w) (real h) = dst"
    by (simp add: drawImage_def createCanvas_def)
  with False show ?thesis
    by (simp add: drawCanvas_def createCanvas_def)
qed

section \<open>Loading and clearing the target\<close>

lemma engine_ok_step: "engine_ok (engine pg) \<Longrightarrow> engine_ok (engine (step ev pg))"
  by (cases ev)
     (simp_all add: engine_ok_def loadTargetFace_def img_onload_def img_onerror_def
        page_clearTargetFace_def clearTargetFace_def Let_def)

lemma engine_ok_run: "engine_ok (engine pg) \<Longrightarrow> engine_ok (engine (run evs pg))"
  unfolding run_def
  by (induction evs arbitrary: pg) (simp_all add: engine_ok_step)

lemma engine_ok_reachable: "engine_ok (engine (run evs new_Page))"
  by (rule engine_ok_run) (simp add: engine_ok_def new_Page_def new_FaceSwapEngine_def)

text \<open>
  C1 (as stated, refuted): after \<open>loadTargetFace(A)\<close>, \<open>loadTargetFace(B)\<close> and
  \<open>clearTargetFace()\<close>, all before any decode has resolved, the claim wants
  \<open>hasTargetFace()\<close> to be false once the decode of B has resolved. The \<open>onload\<close> callback of
  B assigns its image whatever happened since the call, so \<open>hasTargetFace()\<close> is true.
\<close>

theorem C1_counterexample:
  "hasTargetFace (engine (run [Call_loadTargetFace example_faceA, Call_loadTargetFace example_faceB,
                               Call_clearTargetFace, Fire_onload 1 example_red] new_Page))"
  by (simp add: run_def new_Page_def loadTargetFace_def img_onload_def page_clearTargetFace_def
      clearTargetFace_def hasTargetFace_def Let_def)

text \<open>
  C1 (amended): neither \<open>clearTargetFace\<close> nor a later \<open>loadTargetFace\<close> cancels a load
  in flight: both leave every pending load as it is, and when the decode of a pending
  load resolves its image becomes the current target unconditionally, so that
  \<open>hasTargetFace()\<close> is true right after it; in particular it is true when the load
  resolves after a later load was started and the target was cleared.
\<close>

theorem C1_resolution_installs_target:
  assumes "k < length (loads pg)" and "load_promise (loads pg ! k) = Pending"
  shows "hasTargetFace (engine (img_onload k decoded pg))
       \<and> targetFaceImage (engine (img_onload k decoded pg))
           = Some ((load_img (loads pg ! k))\<lparr>img_bitmap := decoded\<lparr>bm_originClean := True\<rparr>\<rparr>)
       \<and> loads (page_clearTargetFace pg) = loads pg
       \<and> loads (loadTargetFace face pg) ! k = loads pg ! k
       \<and> hasTargetFace (engine (img_onload k decoded
                                   (page_clearTargetFace (loadTargetFace face pg))))"
  using assms
  by (simp add: img_onload_def hasTargetFace_def page_clearTargetFace_def clearTargetFace_def
      loadTargetFace_def Let_def nth_append)

text \<open>Witness for C1: the second of two pending loads, resolved after the clear.\<close>

theorem C1_witness:
  "1 < length (loads example_page) \<and> load_promise (loads example_page ! 1) = Pending
   \<and> hasTargetFace (engine (img_onload 1 example_red example_page))
   \<and> hasTargetFace (engine (img_onload 1 example_red
                                (page_clearTargetFace (loadTargetFace example_faceA example_page))))"
proof -
  have h: "1 < length (loads example_page)" "load_promise (loads example_page ! 1) = Pending"
    by (simp_all add: example_page_def run_def new_Page_def loadTargetFace_def
        page_clearTargetFace_def Let_def)
  from C1_resolution_installs_target [OF h, of example_red example_faceA] h show ?thesis
    by simp
qed



section \<open>Feathering\<close>

lemma fold_centre_sums:
  "fold (\<lambda>p (cx, cy). (cx + lm_x p * real width, cy + lm_y p * real height)) pts (a, b)
   = (a + sum_list (map (\<lambda>p. lm_x p * real width) pts),
      b + sum_list (map (\<lambda>p. lm_y p * real height) pts))"
  by (induction pts arbitrary: a b) (simp_all add: add.assoc)

lemma ovalCenter_centroid: "ovalCenter pts width height = outlineCentroid pts width height"
  by (simp add: ovalCenter_def outlineCentroid_def fold_centre_sums)

lemma fold_max_dist:
  "fold (\<lambda>p m. max m (g p)) pts (m0 :: real) = Max (insert m0 (g ` set pts))"
proof (induction pts arbitrary: m0)
  case Nil
  then show ?case by simp
next
  case (Cons p pts)
  have "fold (\<lambda>p m. max m (g p)) (p # pts) m0 = Max (insert (max m0 (g p)) (g ` set pts))"
    using Cons.IH by simp
  also have "\<dots> = Max (insert m0 (insert (g p) (g ` set pts)))"
    by (cases "pts = []") (simp_all add: max.assoc max.commute max.left_commute)
  finally show ?case
    by simp
qed

lemma euclid_nonneg: "0 \<le> euclid x1 y1 x2 y2"
  by (simp add: euclid_def)

lemma euclid_code: "sqrt ((a - c) * (a - c) + (b - d) * (b - d)) = euclid a b c d"
  by (simp add: euclid_def power2_eq_square)

lemma ovalMaxDist_Max:
  assumes "pts \<noteq> []"
  shows "ovalMaxDist pts width height cx cy = outlineMaxDist pts width height (cx, cy)"
proof -
  let ?g = "\<lambda>p. euclid (lm_x p * real width) (lm_y p * real height) cx cy"
  have "ovalMaxDist pts width height cx cy = fold (\<lambda>p m. max m (?g p)) pts 0"
    by (simp add: ovalMaxDist_def Let_def euclid_code)
  also have "\<dots> = Max (insert 0 (?g ` set pts))"
    by (rule fold_max_dist)
  also have "\<dots> = max 0 (Max (?g ` set pts))"
    using assms by simp
  also have "\<dots> = Max (?g ` set pts)"
  proof -
    obtain p where "p \<in> set pts"
      using assms by (cases pts) auto
    then have "?g p \<le> Max (?g ` set pts)"
      by simp
    with euclid_nonneg [of "lm_x p * real width" "lm_y p * real height" cx cy]
    show ?thesis
      by linarith
  qed
  finally show ?thesis
    by (simp add: outlineMaxDist_def)
qed

lemma featherPixel_update:
  assumes "y * width + x < length data" and "feather \<noteq> 0"
  shows "featherPixel cx cy (maxDist - feather) feather width y x data
         = data[y * width + x := featheredPixel (cx, cy) maxDist feather x y (data ! (y * width + x))]"
proof -
  have factor: "1 - (d - (maxDist - feather)) / feather = (maxDist - d) / feather" for d
    using assms(2) by (simp add: field_simps)
  show ?thesis
    using assms(1)
    by (simp add: featherPixel_def featheredPixel_def Let_def euclid_code factor)
qed

lemma fold_row_update:
  fixes g :: "nat \<Rightarrow> 'a \<Rightarrow> 'a"
  assumes "base + n \<le> length data"
  shows "fold (\<lambda>x d. d[base + x := g x (d ! (base + x))]) [0..<n] data
         = map (\<lambda>j. if base \<le> j \<and> j < base + n then g (j - base) (data ! j) else data ! j)
               [0..<length data]"
  using assms
proof (induction n)
  case 0
  have "(\<lambda>j. if base \<le> j \<and> j < base + 0 then g (j - base) (data ! j) else data ! j)
        = (\<lambda>j. data ! j)"
    by (intro ext) auto
  then show ?case
    by (simp add: map_nth)
next
  case (Suc n)
  let ?prev = "map (\<lambda>j. if base \<le> j \<and> j < base + n then g (j - base) (data ! j) else data ! j)
                   [0..<length data]"
  have prev: "fold (\<lambda>x d. d[base + x := g x (d ! (base + x))]) [0..<n] data = ?prev"
    using Suc by simp
  have "fold (\<lambda>x d. d[base + x := g x (d ! (base + x))]) [0..<Suc n] data
        = ?prev[base + n := g n (?prev ! (base + n))]"
    by (simp add: prev)
  also have "\<dots> = map (\<lambda>j. if base \<le> j \<and> j < base + Suc n then g (j - base) (data ! j)
                             else data ! j) [0..<length data]"
  proof (rule nth_equalityI)
    show "length (?prev[base + n := g n (?prev ! (base + n))])
          = length (map (\<lambda>j. if base \<le> j \<and> j < base + Suc n then g (j - base) (data ! j)
                             else data ! j) [0..<length data])"
      by simp
  next
    fix j
    assume "j < length (?prev[base + n := g n (?prev ! (base + n))])"
    then have j: "j < length data"
      by simp
    have bn: "base + n < length data"
      using Suc.prems by simp
    show "?prev[base + n := g n (?prev ! (base + n))] ! j
          = map (\<lambda>j. if base \<le> j \<and> j < base + Suc n then g (j - base) (data ! j)
                       else data ! j) [0..<length data] ! j"
    proof (cases "j = base + n")
      case True
      then show ?thesis
        using bn by simp
    next
      case False
      then show ?thesis
        using j by (auto simp: nth_list_update)
    qed
  qed
  finally show ?case .
qed

lemma fold_rows_update:
  fixes g :: "nat \<Rightarrow> nat \<Rightarrow> 'a \<Rightarrow> 'a"
  assumes "m * w \<le> length data"
  shows "fold (\<lambda>y d. fold (\<lambda>x d'. d'[y * w + x := g y x (d' ! (y * w + x))]) [0..<w] d)
              [0..<m] data
         = map (\<lambda>j. if j < m * w then g (j div w) (j mod w) (data ! j) else data ! j)
               [0..<length data]"
  using assms
proof (induction m)
  case 0
  then show ?case
    by (simp add: map_nth)
next
  case (Suc m)
  let ?row = "\<lambda>y d. fold (\<lambda>x d'. d'[y * w + x := g y x (d' ! (y * w + x))]) [0..<w] d"
  let ?prev = "map (\<lambda>j. if j < m * w then g (j div w) (j mod w) (data ! j) else data ! j)
                   [0..<length data]"
  have prev: "fold ?row [0..<m] data = ?prev"
    using Suc by simp
  have len: "m * w + w \<le> length ?prev"
    using Suc.prems by simp
  have "fold ?row [0..<Suc m] data = ?row m ?prev"
    by (simp add: prev)
  also have "\<dots> = map (\<lambda>j. if m * w \<le> j \<and> j < m * w + w then g m (j - m * w) (?prev ! j)
                             else ?prev ! j) [0..<length ?prev]"
    by (rule fold_row_update [OF len])
  also have "\<dots> = map (\<lambda>j. if j < Suc m * w then g (j div w) (j mod w) (data ! j) else data ! j)
                       [0..<length data]"
  proof (rule nth_equalityI)
    show "length (map (\<lambda>j. if m * w \<le> j \<and> j < m * w + w then g m (j - m * w) (?prev ! j)
                             else ?prev ! j) [0..<length ?prev])
          = length (map (\<lambda>j. if j < Suc m * w then g (j div w) (j mod w) (data ! j)
                              else data ! j) [0..<length data])"
      by simp
  next
    fix j
    assume "j < length (map (\<lambda>j. if m * w \<le> j \<and> j < m * w + w then g m (j - m * w) (?prev ! j)
                             else ?prev ! j) [0..<length ?prev])"
    then have j: "j < length data"
      by simp
    consider "j < m * w" | "m * w \<le> j" "j < m * w + w" | "m * w + w \<le> j"
      by linarith
    then show "map (\<lambda>j. if m * w \<le> j \<and> j < m * w + w then g m (j - m * w) (?prev ! j)
                             else ?prev ! j) [0..<length ?prev] ! j
          = map (\<lambda>j. if j < Suc m * w then g (j div w) (j mod w) (data ! j) else data ! j)
                [0..<length data] ! j"
    proof cases
      case 1
      then show ?thesis
        using j by simp
    next
      case 2
      then obtain x where x: "j = m * w + x" "x < w"
        by (metis add.commute le_Suc_ex nat_add_left_cancel_less)
      then show ?thesis
        using j by simp
    next
      case 3
      then show ?thesis
        using j by simp
    qed
  qed
  finally show ?case .
qed

lemma featherLoop_pointwise:
  assumes "length data = width * height" and "feather \<noteq> 0"
  shows "featherLoop cx cy (maxDist - feather) feather width height data
         = map (\<lambda>k. featheredPixel (cx, cy) maxDist feather (k mod width) (k div width) (data ! k))
               [0..<width * height]"
proof -
  let ?g = "\<lambda>y x p. featheredPixel (cx, cy) maxDist feather x y p"
  let ?upd = "\<lambda>y d. fold (\<lambda>x d'. d'[y * width + x := ?g y x (d' ! (y * width + x))]) [0..<width] d"
  let ?src = "\<lambda>y d. fold (\<lambda>x d'. featherPixel cx cy (maxDist - feather) feather width y x d')
                         [0..<width] d"
  have row: "?src y d = ?upd y d" if "y < height" and "length d = width * height" for y d
  proof -
    have "fold (\<lambda>x d'. featherPixel cx cy (maxDist - feather) feather width y x d') xs d
          = fold (\<lambda>x d'. d'[y * width + x := ?g y x (d' ! (y * width + x))]) xs d"
      if "set xs \<subseteq> {0..<width}" for xs
      using that \<open>length d = width * height\<close>
    proof (induction xs arbitrary: d)
      case Nil
      then show ?case by simp
    next
      case (Cons x xs)
      then have "x < width"
        by simp
      then have "y * width + x < length d"
        using \<open>y < height\<close> Cons.prems(2) by (simp add: pixel_index_bound)
      then have "featherPixel cx cy (maxDist - feather) feather width y x d
                 = d[y * width + x := ?g y x (d ! (y * width + x))]"
        using assms(2) by (rule featherPixel_update)
      then show ?case
        using Cons by simp
    qed
    then show ?thesis
      by simp
  qed
  have rows: "fold ?src ys d = fold ?upd ys d"
    if "set ys \<subseteq> {0..<height}" and "length d = width * height" for ys d
    using that
  proof (induction ys arbitrary: d)
    case Nil
    then show ?case by simp
  next
    case (Cons y ys)
    then have y: "y < height"
      by simp
    have eq: "?src y d = ?upd y d"
      using y Cons.prems(2) by (rule row)
    have "length (?upd y d) = length d"
      by (rule fold_invariant [where Q = "\<lambda>_. True"]) simp_all
    then show ?case
      using Cons eq by simp
  qed
  have "featherLoop cx cy (maxDist - feather) feather width height data = fold ?upd [0..<height] data"
    unfolding featherLoop_def using assms(1) by (intro rows) simp_all
  also have "\<dots> = map (\<lambda>j. if j < height * width then ?g (j div width) (j mod width) (data ! j)
                             else data ! j) [0..<length data]"
    using assms(1) by (intro fold_rows_update) (simp add: mult.commute)
  also have "\<dots> = map (\<lambda>k. featheredPixel (cx, cy) maxDist feather (k mod width) (k div width)
                               (data ! k)) [0..<width * height]"
    using assms(1) by (simp add: mult.commute)
  finally show ?thesis .
qed

lemma applyFeathering_empty_oval:
  assumes "faceOval face = []"
  shows "applyFeathering this face width height = Inr this"
  using assms by (simp add: applyFeathering_def Let_def)

lemma applyFeathering_no_feather:
  assumes "featherAmount (options this) \<le> 0"
  shows "applyFeathering this face width height = Inr this"
  using assms by (simp add: applyFeathering_def Let_def)

lemma featheredPixel_transparent:
  "featheredPixel c maxDist feather x y transparentBlack = transparentBlack"
  by (simp add: featheredPixel_def transparentBlack_def Let_def)

lemma applyFeathering_blank:
  assumes "canvas this = createCanvas width height"
  shows "applyFeathering this face width height = Inr this
       \<or> (\<exists>e. applyFeathering this face width height = Inl e)"
proof (cases "0 < featherAmount (options this) \<and> faceOval face \<noteq> [] \<and> 0 < width \<and> 0 < height")
  case True
  obtain cx cy where c: "ovalCenter (faceOval face) width height = (cx, cy)"
    by (cases "ovalCenter (faceOval face) width height")
  let ?feather = "featherAmount (options this)"
  let ?maxDist = "ovalMaxDist (faceOval face) width height cx cy"
  have full: "getImageData (createCanvas width height) 0 0 width height
              = Inr \<lparr>id_width = width, id_height = height,
                     id_data = replicate (width * height) transparentBlack\<rparr>"
    using True
    by (subst getImageData_full [of _ width height]) (simp_all add: createCanvas_def)
  have loop: "featherLoop cx cy (?maxDist - ?feather) ?feather width height
                (replicate (width * height) transparentBlack)
              = replicate (width * height) transparentBlack"
  proof -
    have "map (\<lambda>k. featheredPixel (cx, cy) ?maxDist ?feather (k mod width) (k div width)
                     (replicate (width * height) transparentBlack ! k)) [0..<width * height]
          = replicate (width * height) transparentBlack"
      by (rule nth_equalityI) (simp_all add: featheredPixel_transparent)
    then show ?thesis
      using True by (subst featherLoop_pointwise) simp_all
  qed
  have put: "putImageData (createCanvas width height)
               \<lparr>id_width = width, id_height = height,
                id_data = replicate (width * height) transparentBlack\<rparr>
             = createCanvas width height"
    by (subst putImageData_full [of _ width height])
       (simp_all add: createCanvas_def canvasPixel_transparent)
  have same: "this\<lparr>canvas := createCanvas width height\<rparr> = this"
    using assms by simp
  have "applyFeathering this face width height = Inr this"
    unfolding applyFeathering_def Let_def
    using True assms by (simp add: c full loop put same)
  then show ?thesis ..
next
  case False
  then consider "featherAmount (options this) \<le> 0" | "faceOval face = []"
    | "0 < featherAmount (options this)" "faceOval face \<noteq> []" "width = 0 \<or> height = 0"
    by fastforce
  then show ?thesis
  proof cases
    case 1
    then show ?thesis by (simp add: applyFeathering_def)
  next
    case 2
    then show ?thesis by (simp add: applyFeathering_def Let_def)
  next
    case 3
    then have "getImageData (canvas this) 0 0 width height = Inl IndexSizeError"
      by (auto simp: getImageData_def)
    with 3 have "applyFeathering this face width height = Inl IndexSizeError"
      by (simp add: applyFeathering_def Let_def split: prod.split)
    then show ?thesis by blast
  qed
qed

lemma applyFeathering_options:
  assumes "featherAmount opts = featherAmount (options e)"
  shows "applyFeathering (e\<lparr>options := opts\<rparr>) face width height =
     (case applyFeathering e face width height of
        Inl err \<Rightarrow> Inl err
      | Inr e' \<Rightarrow> Inr (e'\<lparr>options := opts\<rparr>))"
  unfolding applyFeathering_def Let_def
  using assms by (simp split: prod.split sum.split)

lemma featheredCanvas_wf:
  "bm_width (featheredCanvas pts feather width height cv) = bm_width cv"
  "bm_height (featheredCanvas pts feather width height cv) = bm_height cv"
  "bm_originClean (featheredCanvas pts feather width height cv) = bm_originClean cv"
  by (simp_all add: featheredCanvas_def Let_def)

lemma featheredCanvas_skip:
  assumes "feather \<le> 0 \<or> pts = []"
  shows "featheredCanvas pts feather width height cv = cv"
  using assms by (auto simp: featheredCanvas_def)

lemma featheredCanvas_empty: "featheredCanvas [] feather width height cv = cv"
  by (simp add: featheredCanvas_def)

lemma featheredCanvas_zero: "featheredCanvas pts 0 width height cv = cv"
  by (simp add: featheredCanvas_def)

lemma featheredCanvas_alpha:
  assumes "0 < feather" and "pts \<noteq> []" and "k < width * height"
  shows "px_a (bm_pixels (featheredCanvas pts feather width height cv) ! k)
         = px_a (featheredPixel (outlineCentroid pts width height)
                   (outlineMaxDist pts width height (outlineCentroid pts width height))
                   feather (k mod width) (k div width) (bm_pixels cv ! k))"
  using assms by (simp add: featheredCanvas_def Let_def canvasPixel_alpha)

lemma applyFeathering_result:
  assumes "bm_width (canvas this) = width" and "bm_height (canvas this) = height"
    and "length (bm_pixels (canvas this)) = width * height"
    and "bm_originClean (canvas this)" and "0 < width" and "0 < height"
  shows "applyFeathering this face width height =
           Inr (this\<lparr>canvas := featheredCanvas (faceOval face) (featherAmount (options this))
                                  width height (canvas this)\<rparr>)"
proof (cases "featherAmount (options this) \<le> 0 \<or> faceOval face = []")
  case True
  then have "applyFeathering this face width height = Inr this"
    using applyFeathering_no_feather applyFeathering_empty_oval by blast
  moreover have "featheredCanvas (faceOval face) (featherAmount (options this)) width height
                   (canvas this) = canvas this"
    using True by (rule featheredCanvas_skip)
  ultimately show ?thesis
    by simp
next
  case False
  let ?pts = "faceOval face" and ?feather = "featherAmount (options this)"
  obtain cx cy where c: "outlineCentroid ?pts width height = (cx, cy)"
    by (cases "outlineCentroid ?pts width height")
  then have centre: "ovalCenter ?pts width height = (cx, cy)"
    by (simp add: ovalCenter_centroid)
  let ?maxDist = "outlineMaxDist ?pts width height (cx, cy)"
  have maxDist: "ovalMaxDist ?pts width height cx cy = ?maxDist"
    using False by (intro ovalMaxDist_Max) simp
  have full: "getImageData (canvas this) 0 0 width height
              = Inr \<lparr>id_width = width, id_height = height, id_data = bm_pixels (canvas this)\<rparr>"
    using assms by (intro getImageData_full) simp_all
  let ?data = "map (\<lambda>k. featheredPixel (cx, cy) ?maxDist ?feather (k mod width) (k div width)
                          (bm_pixels (canvas this) ! k)) [0..<width * height]"
  have loop: "featherLoop cx cy (?maxDist - ?feather) ?feather width height (bm_pixels (canvas this))
              = ?data"
    using assms(3) False by (intro featherLoop_pointwise) simp_all
  have put: "putImageData (canvas this)
               \<lparr>id_width = width, id_height = height, id_data = ?data\<rparr>
             = (canvas this)\<lparr>bm_pixels := map canvasPixel ?data\<rparr>"
    using assms(1,3) by (subst putImageData_full [of _ width height]) simp_all
  have fc: "featheredCanvas ?pts ?feather width height (canvas this)
            = (canvas this)\<lparr>bm_pixels := map canvasPixel ?data\<rparr>"
    using False by (simp add: featheredCanvas_def Let_def c comp_def)
  show ?thesis
    unfolding applyFeathering_def Let_def fc
    using False by (simp add: centre maxDist full loop put)
qed

section \<open>Colour correction\<close>

lemma adjustPixel_transparent: "adjustPixel r g b transparentBlack = transparentBlack"
  by (simp add: adjustPixel_def transparentBlack_def)

lemma applyColorCorrection_blank:
  assumes "canvas this = createCanvas width height"
  shows "applyColorCorrection this sourceVideo width height = this"
proof -
  have full: "getImageData (createCanvas width height) 0 0 width height
              = Inr \<lparr>id_width = width, id_height = height,
                     id_data = replicate (width * height) transparentBlack\<rparr>"
    if "0 < width" and "0 < height"
    using that by (subst getImageData_full [of _ width height]) (simp_all add: createCanvas_def)
  have put: "putImageData (createCanvas width height)
               \<lparr>id_width = width, id_height = height,
                id_data = replicate (width * height) transparentBlack\<rparr>
             = createCanvas width height"
    by (subst putImageData_full [of _ width height])
       (simp_all add: createCanvas_def canvasPixel_transparent)
  have same: "this\<lparr>canvas := createCanvas width height\<rparr> = this"
    using assms by simp
  show ?thesis
  proof (cases "0 < width \<and> 0 < height")
    case True
    then show ?thesis
      unfolding applyColorCorrection_def Let_def
      using assms
      by (simp add: full put same adjustPixel_transparent split: sum.split prod.split)
  next
    case False
    then have "getImageData (canvas this) 0 0 width height = Inl IndexSizeError"
      by (auto simp: getImageData_def)
    then show ?thesis
      unfolding applyColorCorrection_def Let_def
      by (simp split: sum.split prod.split)
  qed
qed

lemma applyColorCorrection_options:
  "applyColorCorrection (this\<lparr>options := opts\<rparr>) sourceVideo width height
   = (applyColorCorrection this sourceVideo width height)\<lparr>options := opts\<rparr>"
  unfolding applyColorCorrection_def Let_def
  by (simp split: sum.split prod.split)

lemma applyColorCorrection_wf:
  "bm_width (canvas (applyColorCorrection this sourceVideo width height)) = bm_width (canvas this)"
  "bm_height (canvas (applyColorCorrection this sourceVideo width height)) = bm_height (canvas this)"
  "length (bm_pixels (canvas (applyColorCorrection this sourceVideo width height)))
     = length (bm_pixels (canvas this))"
  "bm_originClean (canvas (applyColorCorrection this sourceVideo width height))
     = bm_originClean (canvas this)"
  "options (applyColorCorrection this sourceVideo width height) = options this"
  unfolding applyColorCorrection_def Let_def
  by (simp_all add: putImageData_wf split: sum.split prod.split)

lemma fold_sumColors:
  "fold (\<lambda>(sp, tp) (srcR, srcG, srcB, tgtR, tgtG, tgtB, count).
           (srcR + real (px_r sp), srcG + real (px_g sp), srcB + real (px_b sp),
            tgtR + real (px_r tp), tgtG + real (px_g tp), tgtB + real (px_b tp),
            count + 1))
        zs (a, b, c, d, e, f, n)
   = (a + sum_list (map (\<lambda>z. real (px_r (fst z))) zs),
      b + sum_list (map (\<lambda>z. real (px_g (fst z))) zs),
      c + sum_list (map (\<lambda>z. real (px_b (fst z))) zs),
      d + sum_list (map (\<lambda>z. real (px_r (snd z))) zs),
      e + sum_list (map (\<lambda>z. real (px_g (snd z))) zs),
      f + sum_list (map (\<lambda>z. real (px_b (snd z))) zs),
      n + real (length zs))"
proof (induction zs arbitrary: a b c d e f n)
  case Nil
  then show ?case by simp
next
  case (Cons z zs)
  obtain sp tp where z: "z = (sp, tp)" by (cases z)
  show ?case
    by (simp add: z Cons.IH add.assoc)
qed

lemma sum_list_zip_fst:
  assumes "length xs = length ys"
  shows "sum_list (map (\<lambda>z. g (fst z)) (zip xs ys)) = sum_list (map g xs)"
proof -
  have "map (\<lambda>z. g (fst z)) (zip xs ys) = map g (map fst (zip xs ys))"
    by simp
  also have "\<dots> = map g xs"
    using assms by simp
  finally show ?thesis by simp
qed

lemma sum_list_zip_snd:
  assumes "length xs = length ys"
  shows "sum_list (map (\<lambda>z. g (snd z)) (zip xs ys)) = sum_list (map g ys)"
proof -
  have "map (\<lambda>z. g (snd z)) (zip xs ys) = map g (map snd (zip xs ys))"
    by simp
  also have "\<dots> = map g ys"
    using assms by simp
  finally show ?thesis by simp
qed

lemma sumColors_sums:
  assumes "length sourceData = length targetData"
  shows "sumColors sourceData targetData
         = (sum_list (map (\<lambda>p. real (px_r p)) sourceData),
            sum_list (map (\<lambda>p. real (px_g p)) sourceData),
            sum_list (map (\<lambda>p. real (px_b p)) sourceData),
            sum_list (map (\<lambda>p. real (px_r p)) targetData),
            sum_list (map (\<lambda>p. real (px_g p)) targetData),
            sum_list (map (\<lambda>p. real (px_b p)) targetData),
            real (length sourceData))"
  unfolding sumColors_def fold_sumColors
  using sum_list_zip_fst [OF assms, of "\<lambda>p. real (px_r p)"]
    sum_list_zip_fst [OF assms, of "\<lambda>p. real (px_g p)"]
    sum_list_zip_fst [OF assms, of "\<lambda>p. real (px_b p)"]
    sum_list_zip_snd [OF assms, of "\<lambda>p. real (px_r p)"]
    sum_list_zip_snd [OF assms, of "\<lambda>p. real (px_g p)"]
    sum_list_zip_snd [OF assms, of "\<lambda>p. real (px_b p)"]
    assms
  by simp

lemma getImageData_centre:
  assumes "bm_originClean cv"
  shows "getImageData cv (real width / 2 - real (50::nat) / 2) (real height / 2 - real (50::nat) / 2)
           50 50
         = Inr \<lparr>id_width = 50, id_height = 50, id_data = centreBlock cv width height\<rparr>"
  using assms by (simp add: getImageData_def centreBlock_def)

lemma length_centreBlock: "length (centreBlock cv width height) = 2500"
  by (simp add: centreBlock_def)

lemma channelMean_zero:
  assumes "\<forall>p \<in> set block. channel p = 0"
  shows "channelMean channel block = 0"
proof -
  have "sum_list (map (\<lambda>p. real (channel p)) block) = 0"
    using assms by (induction block) simp_all
  then show ?thesis
    by (simp add: channelMean_def)
qed

lemma channelRatio_zero_source: "channelRatio 0 scratchMean = 1 / 2"
  by (simp add: channelRatio_def)

lemma applyColorCorrection_read_back_fails:
  assumes "\<not> bm_originClean sourceVideo \<or> \<not> bm_originClean (canvas this)
           \<or> width = 0 \<or> height = 0"
  shows "applyColorCorrection this sourceVideo width height = this"
proof -
  let ?temp = "drawImage (createCanvas width height) NoClip 1 sourceVideo 0 0
                 (real width) (real height)"
  consider "\<not> bm_originClean sourceVideo" | "\<not> bm_originClean (canvas this)"
    | "width = 0 \<or> height = 0"
    using assms by blast
  then show ?thesis
  proof cases
    case 1
    then have "getImageData ?temp (real width / 2 - real (50::nat) / 2)
                 (real height / 2 - real (50::nat) / 2) 50 50 = Inl SecurityError"
      by (simp add: getImageData_def drawImage_def)
    then show ?thesis
      unfolding applyColorCorrection_def Let_def by simp
  next
    case 2
    then have "getImageData (canvas this) (real width / 2 - real (50::nat) / 2)
                 (real height / 2 - real (50::nat) / 2) 50 50 = Inl SecurityError"
      by (simp add: getImageData_def)
    then show ?thesis
      unfolding applyColorCorrection_def Let_def by (simp split: sum.split)
  next
    case 3
    then have "getImageData (canvas this) 0 0 width height = Inl IndexSizeError"
      by (auto simp: getImageData_def)
    then show ?thesis
      unfolding applyColorCorrection_def Let_def by (simp split: sum.split prod.split)
  qed
qed

lemma applyColorCorrection_result:
  assumes "bm_width (canvas this) = width" and "bm_height (canvas this) = height"
    and "length (bm_pixels (canvas this)) = width * height"
    and "bm_originClean sourceVideo" and "bm_originClean (canvas this)"
    and "0 < width" and "0 < height"
  shows "applyColorCorrection this sourceVideo width height =
     this\<lparr>canvas := correctedCanvas sourceVideo width height (canvas this)\<rparr>"
proof -
  let ?temp = "drawImage (createCanvas width height) NoClip 1 sourceVideo 0 0
                 (real width) (real height)"
  let ?src = "centreBlock (scaledFrame sourceVideo width height) width height"
  let ?tgt = "centreBlock (canvas this) width height"
  have temp_clean: "bm_originClean ?temp"
    using assms(4) by (simp add: drawImage_def createCanvas_def)
  have r1: "getImageData ?temp (real width / 2 - 25)
              (real height / 2 - 25) 50 50
            = Inr \<lparr>id_width = 50, id_height = 50, id_data = ?src\<rparr>"
    using getImageData_centre [OF temp_clean, of width height] by (simp add: scaledFrame_def)
  have r2: "getImageData (canvas this) (real width / 2 - 25)
              (real height / 2 - 25) 50 50
            = Inr \<lparr>id_width = 50, id_height = 50, id_data = ?tgt\<rparr>"
    using getImageData_centre [OF assms(5), of width height] by simp
  have sums: "sumColors ?src ?tgt
         = (sum_list (map (\<lambda>p. real (px_r p)) ?src),
            sum_list (map (\<lambda>p. real (px_g p)) ?src),
            sum_list (map (\<lambda>p. real (px_b p)) ?src),
            sum_list (map (\<lambda>p. real (px_r p)) ?tgt),
            sum_list (map (\<lambda>p. real (px_g p)) ?tgt),
            sum_list (map (\<lambda>p. real (px_b p)) ?tgt),
            2500)"
    by (subst sumColors_sums) (simp_all add: length_centreBlock)
  have r3: "getImageData (canvas this) 0 0 width height
            = Inr \<lparr>id_width = width, id_height = height, id_data = bm_pixels (canvas this)\<rparr>"
    using assms by (intro getImageData_full) simp_all
  have put: "putImageData (canvas this) \<lparr>id_width = width, id_height = height, id_data = map f (bm_pixels (canvas this))\<rparr>
             = (canvas this)\<lparr>bm_pixels := map (\<lambda>p. canvasPixel (f p)) (bm_pixels (canvas this))\<rparr>" for f
    using assms(1,3) by (subst putImageData_full [of _ width height]) (simp_all add: comp_def)
  have adjust: "adjustPixel r g b p =
                  (if 0 < px_a p
                   then \<lparr>px_r = ToUint8Clamp (min 255 (real (px_r p) * r)),
                         px_g = ToUint8Clamp (min 255 (real (px_g p) * g)),
                         px_b = ToUint8Clamp (min 255 (real (px_b p) * b)),
                         px_a = px_a p\<rparr>
                   else p)" for r g b p
    by (cases p) (simp add: adjustPixel_def)
  show ?thesis
    unfolding applyColorCorrection_def correctedCanvas_def Let_def
    by (simp add: r1 r2 sums r3 put adjust channelMean_def channelRatio_def clamp_def orOne_def
        length_centreBlock)
qed

lemma correctedCanvas_wf:
  "bm_width (correctedCanvas sourceVideo width height cv) = bm_width cv"
  "bm_height (correctedCanvas sourceVideo width height cv) = bm_height cv"
  "length (bm_pixels (correctedCanvas sourceVideo width height cv)) = length (bm_pixels cv)"
  "bm_originClean (correctedCanvas sourceVideo width height cv) = bm_originClean cv"
  by (simp_all add: correctedCanvas_def Let_def)

lemma correctionStep_wf:
  "bm_width (correctionStep enabled sourceVideo width height cv) = bm_width cv"
  "bm_height (correctionStep enabled sourceVideo width height cv) = bm_height cv"
  "length (bm_pixels (correctionStep enabled sourceVideo width height cv)) = length (bm_pixels cv)"
  "bm_originClean (correctionStep enabled sourceVideo width height cv) = bm_originClean cv"
  by (simp_all add: correctionStep_def correctedCanvas_wf)

lemma correctionStep_off: "correctionStep False sourceVideo width height cv = cv"
  by (simp add: correctionStep_def)

section \<open>The stages of processFrame\<close>

lemma processFrame_stages_raw:
  assumes "targetFaceImage this = Some target"
  shows "processFrame this sourceVideo (Some face) outputCanvas =
     (let width = bm_width outputCanvas; height = bm_height outputCanvas;
          out1 = drawVideoFrame sourceVideo outputCanvas
      in case overlayClip (boundingBox face) width height of
           Inl e \<Rightarrow> \<lparr>thrown = Some e, engine_after = this\<lparr>canvas := createCanvas width height\<rparr>,
                     output_after = out1\<rparr>
         | Inr clip \<Rightarrow>
             finishFrame
               (colorStage (colorCorrection (options this))
                  (this\<lparr>canvas := createCanvas width height,
                        canvas := overlayDrawn (blendAmount (options this)) (img_bitmap target)
                                     (boundingBox face) width height clip\<rparr>)
                  sourceVideo width height)
               face out1)"
  unfolding processFrame_def overlayClip_def overlayDrawn_def finishFrame_def colorStage_def Let_def
  by (simp only: assms cleared_canvas drawVideoFrame_size prod.case option.case)

lemma processFrame_stages:
  assumes "targetFaceImage this = Some target"
  shows "processFrame this sourceVideo (Some face) outputCanvas =
     (case overlayClip (boundingBox face) (bm_width outputCanvas) (bm_height outputCanvas) of
        Inl e \<Rightarrow> \<lparr>thrown = Some e,
                  engine_after = this\<lparr>canvas := createCanvas (bm_width outputCanvas)
                                                      (bm_height outputCanvas)\<rparr>,
                  output_after = drawVideoFrame sourceVideo outputCanvas\<rparr>
      | Inr clip \<Rightarrow>
          finishFrame
            (colorStage (colorCorrection (options this))
               (this\<lparr>canvas := overlayDrawn (blendAmount (options this)) (img_bitmap target)
                          (boundingBox face) (bm_width outputCanvas) (bm_height outputCanvas) clip\<rparr>)
               sourceVideo (bm_width outputCanvas) (bm_height outputCanvas))
            face (drawVideoFrame sourceVideo outputCanvas))"
  by (simp add: processFrame_stages_raw [OF assms] Let_def cong: sum.case_cong)

lemma overlayDrawn_wf:
  "bm_width (overlayDrawn blend target faceBox width height clip) = width"
  "bm_height (overlayDrawn blend target faceBox width height clip) = height"
  "length (bm_pixels (overlayDrawn blend target faceBox width height clip)) = width * height"
  "bm_originClean (overlayDrawn blend target faceBox width height clip) = bm_originClean target"
  by (simp_all add: overlayDrawn_def Let_def drawImage_def createCanvas_def)

lemma overlayDrawn_blend_zero:
  assumes "bm_originClean target"
  shows "overlayDrawn 0 target faceBox width height clip = createCanvas width height"
  unfolding overlayDrawn_def Let_def
  by (simp add: set_globalAlpha_def drawImage_alpha_zero [OF assms])

lemma finishFrame_blank:
  assumes "canvas this3 = createCanvas (bm_width out1) (bm_height out1)"
  shows "output_after (finishFrame this3 face out1) = out1"
proof -
  let ?w = "bm_width out1" and ?h = "bm_height out1"
  from applyFeathering_blank [OF assms, of face]
  consider "applyFeathering this3 face ?w ?h = Inr this3"
    | e where "applyFeathering this3 face ?w ?h = Inl e"
    by blast
  then show ?thesis
  proof cases
    case 1
    from drawCanvas_blank [of out1 ?w ?h]
    consider "drawCanvas out1 (createCanvas ?w ?h) = Inr out1"
      | e where "drawCanvas out1 (createCanvas ?w ?h) = Inl e"
      by blast
    then show ?thesis
      using 1 assms by cases (simp_all add: finishFrame_def)
  next
    case 2
    then show ?thesis by (simp add: finishFrame_def)
  qed
qed

lemma colorStage_blank:
  assumes "canvas this2 = createCanvas width height"
  shows "colorStage enabled this2 sourceVideo width height = this2"
  using applyColorCorrection_blank [OF assms] by (simp add: colorStage_def)

lemma colorStage_options:
  "colorStage enabled (this\<lparr>options := opts\<rparr>) sourceVideo width height
   = (colorStage enabled this sourceVideo width height)\<lparr>options := opts\<rparr>"
  by (simp add: colorStage_def applyColorCorrection_options)

lemma finishFrame_skipped:
  assumes "applyFeathering this3 face (bm_width out1) (bm_height out1) = Inr this3"
  shows "finishFrame this3 face out1 =
     (case drawCanvas out1 (canvas this3) of
        Inl e \<Rightarrow> \<lparr>thrown = Some e, engine_after = this3, output_after = out1\<rparr>
      | Inr out2 \<Rightarrow> \<lparr>thrown = None, engine_after = this3, output_after = out2\<rparr>)"
  using assms by (simp add: finishFrame_def)

lemma finishFrame_options:
  assumes "featherAmount opts = featherAmount (options e)"
  shows "thrown (finishFrame (e\<lparr>options := opts\<rparr>) face out1) = thrown (finishFrame e face out1)
       \<and> output_after (finishFrame (e\<lparr>options := opts\<rparr>) face out1)
           = output_after (finishFrame e face out1)
       \<and> canvas (engine_after (finishFrame (e\<lparr>options := opts\<rparr>) face out1))
           = canvas (engine_after (finishFrame e face out1))"
proof (cases "applyFeathering e face (bm_width out1) (bm_height out1)")
  case (Inl err)
  then show ?thesis
    by (simp add: finishFrame_def applyFeathering_options [OF assms])
next
  case (Inr e')
  then show ?thesis
    by (cases "drawCanvas out1 (canvas e')")
       (simp_all add: finishFrame_def applyFeathering_options [OF assms])
qed

lemma overlayClip_ok:
  assumes "0 \<le> box_width faceBox" and "0 \<le> box_height faceBox"
  shows "overlayClip faceBox width height = Inr (faceEllipse faceBox width height)"
  using assms
  by (simp add: overlayClip_def faceEllipse_def ellipse_def Let_def algebra_simps not_less
      mult_nonneg_nonneg)

lemma colorStage_result:
  assumes "bm_width cv = width" and "bm_height cv = height"
    and "length (bm_pixels cv) = width * height" and "0 < width" and "0 < height"
  shows "colorStage enabled (this\<lparr>canvas := cv\<rparr>) sourceVideo width height
         = this\<lparr>canvas := correctionStep enabled sourceVideo width height cv\<rparr>"
proof (cases "enabled \<and> bm_originClean sourceVideo \<and> bm_originClean cv")
  case True
  then have "applyColorCorrection (this\<lparr>canvas := cv\<rparr>) sourceVideo width height
             = this\<lparr>canvas := cv\<rparr>\<lparr>canvas := correctedCanvas sourceVideo width height
                                              (canvas (this\<lparr>canvas := cv\<rparr>))\<rparr>"
    using assms by (intro applyColorCorrection_result) simp_all
  with True show ?thesis
    by (simp add: colorStage_def correctionStep_def)
next
  case False
  show ?thesis
  proof (cases enabled)
    case True
    with False have "\<not> bm_originClean sourceVideo \<or> \<not> bm_originClean (canvas (this\<lparr>canvas := cv\<rparr>))
                     \<or> width = 0 \<or> height = 0"
      by auto
    then have "applyColorCorrection (this\<lparr>canvas := cv\<rparr>) sourceVideo width height
               = this\<lparr>canvas := cv\<rparr>"
      by (rule applyColorCorrection_read_back_fails)
    with True False show ?thesis
      by (auto simp: colorStage_def correctionStep_def)
  next
    case False
    then show ?thesis
      by (simp add: colorStage_def correctionStep_def)
  qed
qed

lemma finishFrame_result:
  assumes "bm_width (canvas e) = bm_width out1" and "bm_height (canvas e) = bm_height out1"
    and "length (bm_pixels (canvas e)) = bm_width out1 * bm_height out1"
    and "0 < bm_width out1" and "0 < bm_height out1"
    and "bm_originClean (canvas e) \<or> featherAmount (options e) \<le> 0 \<or> faceOval face = []"
  shows "finishFrame e face out1 =
     \<lparr>thrown = None,
      engine_after = e\<lparr>canvas := featheredCanvas (faceOval face) (featherAmount (options e))
                                   (bm_width out1) (bm_height out1) (canvas e)\<rparr>,
      output_after = drawImage out1 NoClip 1
                       (featheredCanvas (faceOval face) (featherAmount (options e))
                          (bm_width out1) (bm_height out1) (canvas e))
                       0 0 (real (bm_width out1)) (real (bm_height out1))\<rparr>"
proof -
  let ?w = "bm_width out1" and ?h = "bm_height out1"
  let ?F = "featheredCanvas (faceOval face) (featherAmount (options e)) ?w ?h (canvas e)"
  have feathered: "applyFeathering e face ?w ?h = Inr (e\<lparr>canvas := ?F\<rparr>)"
  proof (cases "bm_originClean (canvas e)")
    case True
    with assms show ?thesis
      by (intro applyFeathering_result) simp_all
  next
    case False
    with assms(6) have skip: "featherAmount (options e) \<le> 0 \<or> faceOval face = []"
      by simp
    then have "applyFeathering e face ?w ?h = Inr e"
      using applyFeathering_no_feather applyFeathering_empty_oval by blast
    moreover have "?F = canvas e"
      using skip by (rule featheredCanvas_skip)
    ultimately show ?thesis
      by simp
  qed
  have "drawCanvas out1 ?F = Inr (drawImage out1 NoClip 1 ?F 0 0 (real ?w) (real ?h))"
    using assms(1,2,4,5) by (simp add: drawCanvas_def featheredCanvas_wf)
  with feathered show ?thesis
    by (simp add: finishFrame_def)
qed

lemma processFrame_result:
  assumes "targetFaceImage this = Some target"
    and "0 \<le> box_width (boundingBox face)" and "0 \<le> box_height (boundingBox face)"
    and "0 < bm_width outputCanvas" and "0 < bm_height outputCanvas"
    and "bm_originClean (img_bitmap target) \<or> featherAmount (options this) \<le> 0
         \<or> faceOval face = []"
  shows "processFrame this sourceVideo (Some face) outputCanvas =
     (let overlay = overlayDrawn (blendAmount (options this)) (img_bitmap target)
                      (boundingBox face) (bm_width outputCanvas) (bm_height outputCanvas)
                      (faceEllipse (boundingBox face) (bm_width outputCanvas)
                         (bm_height outputCanvas));
          corrected = correctionStep (colorCorrection (options this)) sourceVideo
                        (bm_width outputCanvas) (bm_height outputCanvas) overlay;
          scratch = featheredCanvas (faceOval face) (featherAmount (options this))
                      (bm_width outputCanvas) (bm_height outputCanvas) corrected
      in \<lparr>thrown = None, engine_after = this\<lparr>canvas := scratch\<rparr>,
          output_after = drawImage (drawVideoFrame sourceVideo outputCanvas) NoClip 1 scratch
                           0 0 (real (bm_width outputCanvas)) (real (bm_height outputCanvas))\<rparr>)"
proof -
  let ?w = "bm_width outputCanvas" and ?h = "bm_height outputCanvas"
  let ?out1 = "drawVideoFrame sourceVideo outputCanvas"
  let ?overlay = "overlayDrawn (blendAmount (options this)) (img_bitmap target)
                    (boundingBox face) ?w ?h (faceEllipse (boundingBox face) ?w ?h)"
  let ?corrected = "correctionStep (colorCorrection (options this)) sourceVideo ?w ?h ?overlay"
  let ?e = "this\<lparr>canvas := ?corrected\<rparr>"
  have clip: "overlayClip (boundingBox face) ?w ?h = Inr (faceEllipse (boundingBox face) ?w ?h)"
    using assms(2,3) by (rule overlayClip_ok)
  have stage: "colorStage (colorCorrection (options this)) (this\<lparr>canvas := ?overlay\<rparr>)
                 sourceVideo ?w ?h = ?e"
    using assms(4,5) by (intro colorStage_result) (simp_all add: overlayDrawn_wf)
  have pf: "processFrame this sourceVideo (Some face) outputCanvas = finishFrame ?e face ?out1"
    by (simp add: processFrame_stages [OF assms(1)] clip stage)
  have size: "bm_width ?out1 = ?w" "bm_height ?out1 = ?h"
    by (simp_all add: drawVideoFrame_size)
  have "finishFrame ?e face ?out1 =
     \<lparr>thrown = None,
      engine_after = ?e\<lparr>canvas := featheredCanvas (faceOval face) (featherAmount (options ?e))
                                   (bm_width ?out1) (bm_height ?out1) (canvas ?e)\<rparr>,
      output_after = drawImage ?out1 NoClip 1
                       (featheredCanvas (faceOval face) (featherAmount (options ?e))
                          (bm_width ?out1) (bm_height ?out1) (canvas ?e))
                       0 0 (real (bm_width ?out1)) (real (bm_height ?out1))\<rparr>"
    using assms(4,5,6)
    by (intro finishFrame_result) (simp_all add: size correctionStep_wf overlayDrawn_wf)
  then show ?thesis
    unfolding pf Let_def by (simp add: size)
qed

lemma empty_oval_as_no_feather:
  assumes "faceOval face = []"
  shows "thrown (processFrame this sourceVideo (Some face) outputCanvas)
           = thrown (processFrame (setOptions this (no_options\<lparr>opt_featherAmount := Some 0\<rparr>))
                       sourceVideo (Some face) outputCanvas)
       \<and> output_after (processFrame this sourceVideo (Some face) outputCanvas)
           = output_after (processFrame (setOptions this (no_options\<lparr>opt_featherAmount := Some 0\<rparr>))
                       sourceVideo (Some face) outputCanvas)
       \<and> canvas (engine_after (processFrame this sourceVideo (Some face) outputCanvas))
           = canvas (engine_after
                (processFrame (setOptions this (no_options\<lparr>opt_featherAmount := Some 0\<rparr>))
                       sourceVideo (Some face) outputCanvas))"
proof -
  let ?opts = "(options this)\<lparr>featherAmount := 0\<rparr>"
  let ?hard = "setOptions this (no_options\<lparr>opt_featherAmount := Some 0\<rparr>)"
  have hard: "?hard = this\<lparr>options := ?opts\<rparr>"
    by (simp add: setOptions_def spread_options_def no_options_def)
  show ?thesis
  proof (cases "targetFaceImage this")
    case None
    then show ?thesis
      by (simp add: hard processFrame_def Let_def)
  next
    case (Some t)
    let ?w = "bm_width outputCanvas" and ?h = "bm_height outputCanvas"
    let ?out1 = "drawVideoFrame sourceVideo outputCanvas"
    show ?thesis
    proof (cases "overlayClip (boundingBox face) ?w ?h")
      case (Inl e)
      with Some show ?thesis
        by (simp add: hard processFrame_stages [where target = t])
    next
      case (Inr clip)
      let ?drawn = "overlayDrawn (blendAmount (options this)) (img_bitmap t) (boundingBox face)
                      ?w ?h clip"
      let ?e = "colorStage (colorCorrection (options this)) (this\<lparr>canvas := ?drawn\<rparr>)
                  sourceVideo ?w ?h"
      have swap: "this\<lparr>options := ?opts, canvas := ?drawn\<rparr> = this\<lparr>canvas := ?drawn, options := ?opts\<rparr>"
        by simp
      have soft: "processFrame this sourceVideo (Some face) outputCanvas = finishFrame ?e face ?out1"
        using Some Inr by (simp add: processFrame_stages [where target = t])
      have "processFrame ?hard sourceVideo (Some face) outputCanvas
            = finishFrame (colorStage (colorCorrection (options this))
                 (this\<lparr>options := ?opts, canvas := ?drawn\<rparr>) sourceVideo ?w ?h) face ?out1"
        using Some Inr by (simp add: hard processFrame_stages [where target = t])
      then have hard': "processFrame ?hard sourceVideo (Some face) outputCanvas
            = finishFrame (?e\<lparr>options := ?opts\<rparr>) face ?out1"
        by (simp only: swap colorStage_options)
      have f1: "finishFrame ?e face ?out1 =
         (case drawCanvas ?out1 (canvas ?e) of
            Inl err \<Rightarrow> \<lparr>thrown = Some err, engine_after = ?e, output_after = ?out1\<rparr>
          | Inr out2 \<Rightarrow> \<lparr>thrown = None, engine_after = ?e, output_after = out2\<rparr>)"
        by (rule finishFrame_skipped) (rule applyFeathering_empty_oval [OF assms])
      have f2: "finishFrame (?e\<lparr>options := ?opts\<rparr>) face ?out1 =
         (case drawCanvas ?out1 (canvas (?e\<lparr>options := ?opts\<rparr>)) of
            Inl err \<Rightarrow> \<lparr>thrown = Some err, engine_after = ?e\<lparr>options := ?opts\<rparr>,
                        output_after = ?out1\<rparr>
          | Inr out2 \<Rightarrow> \<lparr>thrown = None, engine_after = ?e\<lparr>options := ?opts\<rparr>,
                         output_after = out2\<rparr>)"
        by (rule finishFrame_skipped) (rule applyFeathering_empty_oval [OF assms])
      show ?thesis
        unfolding soft hard' f1 f2
        by (cases "drawCanvas ?out1 (canvas ?e)") simp_all
    qed
  qed
qed

section \<open>The example inputs evaluated\<close>

lemma example_engine_eq:
  "example_engine = \<lparr>canvas = createCanvas 300 150,
     targetFaceImage = Some \<lparr>img_src = ''a.png'', img_crossOrigin = ''anonymous'', img_bitmap = example_red\<rparr>,
     options = \<lparr>blendAmount = 0.95, featherAmount = 20, colorCorrection = False\<rparr>\<rparr>"
  by (simp add: example_engine_def run_def new_Page_def loadTargetFace_def img_onload_def Let_def
      example_faceA_def new_Image_def new_FaceSwapEngine_def spread_options_def no_options_def example_red_def)

lemma example_pass_through: "drawVideoFrame example_blue (createCanvas 1 1) = example_blue"
  by (simp add: drawVideoFrame_def drawImage_def createCanvas_def example_blue_def
      pixelCentreX_def pixelCentreY_def samplePixel_def sourceOver_def canvasPixel_def premultiply_def unpremultiply_def Let_def ToUint8Clamp_def transparentBlack_def)

lemma example_options:
  "targetFaceImage example_engine
   = Some \<lparr>img_src = ''a.png'', img_crossOrigin = ''anonymous'', img_bitmap = example_red\<rparr>"
  "img_bitmap \<lparr>img_src = ''a.png'', img_crossOrigin = ''anonymous'', img_bitmap = example_red\<rparr>
   = example_red"
  "blendAmount (options example_engine) = 19 / 20"
  "featherAmount (options example_engine) = 20"
  "colorCorrection (options example_engine) = False"
  by (simp_all add: example_engine_eq)

lemma example_sizes:
  "bm_width (createCanvas 1 1) = 1" "bm_height (createCanvas 1 1) = 1"
  "bm_width (createCanvas 3 1) = 3" "bm_height (createCanvas 3 1) = 1"
  by (simp_all add: createCanvas_def)

lemma upt_three: "[0..<3] = [0, 1, 2]" "[0..<3 * 1] = [0, 1, 2]" "[0..<Suc 0] = [0]"
  by (simp_all add: upt_rec)

lemma blank_three: "replicate 3 transparentBlack = [transparentBlack, transparentBlack, transparentBlack]"
  by (simp add: numeral_3_eq_3)

lemma example_box:
  "boundingBox example_covering_face = \<lparr>box_x = - 1, box_y = - 1, box_width = 3, box_height = 3\<rparr>"
  "boundingBox example_outlined_face = \<lparr>box_x = - 1, box_y = - 1, box_width = 3, box_height = 3\<rparr>"
  "faceOval example_covering_face = []"
  "faceOval example_outlined_face = [\<lparr>lm_x = 0, lm_y = 0, lm_z = 0\<rparr>, \<lparr>lm_x = 4 / 3, lm_y = 0, lm_z = 0\<rparr>]"
  by (simp_all add: example_covering_face_def example_outlined_face_def example_face_def)

lemma example_ellipse:
  "faceEllipse \<lparr>box_x = - 1, box_y = - 1, box_width = 3, box_height = 3\<rparr> 1 1
   = EllipseClip (1 / 2) (1 / 2) (819 / 500) (234 / 125)"
  "faceEllipse \<lparr>box_x = - 1, box_y = - 1, box_width = 3, box_height = 3\<rparr> 3 1
   = EllipseClip (3 / 2) (1 / 2) (2457 / 500) (234 / 125)"
  by (simp_all add: faceEllipse_def)

lemma example_overlay1:
  "overlayDrawn (19 / 20) example_red \<lparr>box_x = - 1, box_y = - 1, box_width = 3, box_height = 3\<rparr> 1 1
     (EllipseClip (1 / 2) (1 / 2) (819 / 500) (234 / 125))
   = example_row [example_veil]"
  by (simp add: overlayDrawn_def example_red_def example_row_def example_veil_def Let_def
      set_globalAlpha_def drawImage_def createCanvas_def
      pixelCentreX_def pixelCentreY_def samplePixel_def sourceOver_def canvasPixel_def
      premultiply_def unpremultiply_def ToUint8Clamp_def transparentBlack_def power2_eq_square)

lemma example_overlay3:
  "overlayDrawn (19 / 20) example_red \<lparr>box_x = - 1, box_y = - 1, box_width = 3, box_height = 3\<rparr> 3 1
     (EllipseClip (3 / 2) (1 / 2) (2457 / 500) (234 / 125))
   = example_row [example_veil, example_veil, example_veil]"
  by (simp add: overlayDrawn_def example_red_def example_row_def example_veil_def Let_def
      set_globalAlpha_def drawImage_def createCanvas_def upt_three blank_three
      pixelCentreX_def pixelCentreY_def samplePixel_def sourceOver_def canvasPixel_def
      premultiply_def unpremultiply_def ToUint8Clamp_def transparentBlack_def power2_eq_square)

lemma example_outline:
  "outlineCentroid [\<lparr>lm_x = 0, lm_y = 0, lm_z = 0\<rparr>, \<lparr>lm_x = 4 / 3, lm_y = 0, lm_z = 0\<rparr>] 3 1 = (2, 0)"
  "outlineMaxDist [\<lparr>lm_x = 0, lm_y = 0, lm_z = 0\<rparr>, \<lparr>lm_x = 4 / 3, lm_y = 0, lm_z = 0\<rparr>] 3 1 (2, 0) = 2"
  by (simp_all add: outlineCentroid_def outlineMaxDist_def euclid_def)

lemma example_feathered_pixels:
  "featheredPixel (2, 0) 2 2 0 0 example_veil = example_veil\<lparr>px_a := 0\<rparr>"
  "featheredPixel (2, 0) 2 2 (Suc 0) 0 example_veil = example_veil\<lparr>px_a := 121\<rparr>"
  "featheredPixel (2, 0) 2 2 2 0 example_veil = example_veil"
  by (simp_all add: featheredPixel_def euclid_def example_veil_def Let_def ToUint8Clamp_def)

lemma example_kept:
  "canvasPixel (example_veil\<lparr>px_a := 0\<rparr>) = transparentBlack"
  "canvasPixel (example_veil\<lparr>px_a := 121\<rparr>) = example_veil\<lparr>px_a := 121\<rparr>"
  "canvasPixel example_veil = example_veil"
  by (simp_all add: canvasPixel_def premultiply_def unpremultiply_def ToUint8Clamp_def
      example_veil_def)

lemma example_feathered:
  "featheredCanvas [\<lparr>lm_x = 0, lm_y = 0, lm_z = 0\<rparr>, \<lparr>lm_x = 4 / 3, lm_y = 0, lm_z = 0\<rparr>] 2 3 1
     (example_row [example_veil, example_veil, example_veil])
   = example_row [transparentBlack, example_veil\<lparr>px_a := 121\<rparr>, example_veil]"
  unfolding featheredCanvas_def Let_def example_outline upt_three
  by (simp add: example_row_def example_feathered_pixels example_kept)

lemma example_frame3:
  "drawVideoFrame example_blue (createCanvas 3 1)
   = example_row [\<lparr>px_r = 0, px_g = 0, px_b = 255, px_a = 255\<rparr>,
                  \<lparr>px_r = 0, px_g = 0, px_b = 255, px_a = 255\<rparr>,
                  \<lparr>px_r = 0, px_g = 0, px_b = 255, px_a = 255\<rparr>]"
  by (simp add: drawVideoFrame_def drawImage_def createCanvas_def example_blue_def example_row_def
      upt_three blank_three pixelCentreX_def pixelCentreY_def samplePixel_def sourceOver_def canvasPixel_def
      premultiply_def unpremultiply_def Let_def ToUint8Clamp_def transparentBlack_def)

lemma example_composite1:
  "drawImage example_blue NoClip 1 (example_row [example_veil]) 0 0 (real (1::nat)) (real (1::nat))
   = example_row [\<lparr>px_r = 242, px_g = 0, px_b = 13, px_a = 255\<rparr>]"
  by (simp add: drawImage_def example_blue_def example_row_def example_veil_def
      pixelCentreX_def pixelCentreY_def samplePixel_def sourceOver_def canvasPixel_def
      premultiply_def unpremultiply_def Let_def ToUint8Clamp_def)

lemma example_composite3:
  "drawImage (example_row [\<lparr>px_r = 0, px_g = 0, px_b = 255, px_a = 255\<rparr>,
                           \<lparr>px_r = 0, px_g = 0, px_b = 255, px_a = 255\<rparr>,
                           \<lparr>px_r = 0, px_g = 0, px_b = 255, px_a = 255\<rparr>])
     NoClip 1 (example_row [transparentBlack, example_veil\<lparr>px_a := 121\<rparr>, example_veil])
     0 0 (real (3::nat)) (real (1::nat))
   = example_row [\<lparr>px_r = 0, px_g = 0, px_b = 255, px_a = 255\<rparr>,
                  \<lparr>px_r = 121, px_g = 0, px_b = 134, px_a = 255\<rparr>,
                  \<lparr>px_r = 242, px_g = 0, px_b = 13, px_a = 255\<rparr>]"
  by (simp add: drawImage_def example_row_def example_veil_def upt_three
      pixelCentreX_def pixelCentreY_def samplePixel_def sourceOver_def canvasPixel_def
      premultiply_def unpremultiply_def Let_def ToUint8Clamp_def transparentBlack_def)

lemma example_composite3_hard:
  "drawImage (example_row [\<lparr>px_r = 0, px_g = 0, px_b = 255, px_a = 255\<rparr>,
                           \<lparr>px_r = 0, px_g = 0, px_b = 255, px_a = 255\<rparr>,
                           \<lparr>px_r = 0, px_g = 0, px_b = 255, px_a = 255\<rparr>])
     NoClip 1 (example_row [example_veil, example_veil, example_veil])
     0 0 (real (3::nat)) (real (1::nat))
   = example_row [\<lparr>px_r = 242, px_g = 0, px_b = 13, px_a = 255\<rparr>,
                  \<lparr>px_r = 242, px_g = 0, px_b = 13, px_a = 255\<rparr>,
                  \<lparr>px_r = 242, px_g = 0, px_b = 13, px_a = 255\<rparr>]"
  by (simp add: drawImage_def example_row_def example_veil_def upt_three
      pixelCentreX_def pixelCentreY_def samplePixel_def sourceOver_def canvasPixel_def
      premultiply_def unpremultiply_def Let_def ToUint8Clamp_def transparentBlack_def)

lemma example_feathering_engine:
  "setOptions example_engine (no_options\<lparr>opt_featherAmount := Some f\<rparr>)
   = example_engine\<lparr>options := \<lparr>blendAmount = 19 / 20, featherAmount = f, colorCorrection = False\<rparr>\<rparr>"
  by (simp add: setOptions_def spread_options_def no_options_def example_engine_eq)

lemma example_feathering_options:
  "targetFaceImage (example_engine\<lparr>options := opts\<rparr>)
   = Some \<lparr>img_src = ''a.png'', img_crossOrigin = ''anonymous'', img_bitmap = example_red\<rparr>"
  "blendAmount (options (example_engine\<lparr>options :=
      \<lparr>blendAmount = b, featherAmount = f, colorCorrection = c\<rparr>\<rparr>)) = b"
  "featherAmount (options (example_engine\<lparr>options :=
      \<lparr>blendAmount = b, featherAmount = f, colorCorrection = c\<rparr>\<rparr>)) = f"
  "colorCorrection (options (example_engine\<lparr>options :=
      \<lparr>blendAmount = b, featherAmount = f, colorCorrection = c\<rparr>\<rparr>)) = c"
  by (simp_all add: example_engine_eq)

lemma example_overlay_opaque:
  "overlayDrawn 1 example_red \<lparr>box_x = - 1, box_y = - 1, box_width = 3, box_height = 3\<rparr> 1 1
     (EllipseClip (1 / 2) (1 / 2) (819 / 500) (234 / 125))
   = example_red"
  by (simp add: overlayDrawn_def example_red_def Let_def
      set_globalAlpha_def drawImage_def createCanvas_def
      pixelCentreX_def pixelCentreY_def samplePixel_def sourceOver_def canvasPixel_def
      premultiply_def unpremultiply_def ToUint8Clamp_def transparentBlack_def power2_eq_square)

lemma example_black_scaled: "scaledFrame example_black 1 1 = example_black"
  by (simp add: scaledFrame_def drawImage_def createCanvas_def example_black_def
      pixelCentreX_def pixelCentreY_def samplePixel_def sourceOver_def canvasPixel_def
      premultiply_def unpremultiply_def Let_def ToUint8Clamp_def transparentBlack_def)

lemma example_black_means:
  "channelMean px_r (centreBlock (scaledFrame example_black 1 1) 1 1) = 0"
  "channelMean px_g (centreBlock (scaledFrame example_black 1 1) 1 1) = 0"
  "channelMean px_b (centreBlock (scaledFrame example_black 1 1) 1 1) = 0"
proof -
  let ?frame = "scaledFrame example_black 1 1"
  have len: "length (bm_pixels ?frame) = bm_width ?frame * bm_height ?frame"
    unfolding example_black_scaled by (simp add: example_black_def)
  have px: "set (bm_pixels ?frame) = {\<lparr>px_r = 0, px_g = 0, px_b = 0, px_a = 255\<rparr>}"
    unfolding example_black_scaled by (simp add: example_black_def)
  have zero: "px_r p = 0 \<and> px_g p = 0 \<and> px_b p = 0" if "p \<in> set (centreBlock ?frame 1 1)" for p
  proof -
    from that obtain x y where "p = pixelAt ?frame x y"
      unfolding centreBlock_def by auto
    with pixelAt_cases [OF len, of x y]
    have "p = transparentBlack \<or> p = \<lparr>px_r = 0, px_g = 0, px_b = 0, px_a = 255\<rparr>"
      unfolding px by simp
    then show ?thesis
      by (auto simp: transparentBlack_def)
  qed
  show "channelMean px_r (centreBlock ?frame 1 1) = 0"
    by (rule channelMean_zero) (simp add: zero)
  show "channelMean px_g (centreBlock ?frame 1 1) = 0"
    by (rule channelMean_zero) (simp add: zero)
  show "channelMean px_b (centreBlock ?frame 1 1) = 0"
    by (rule channelMean_zero) (simp add: zero)
qed

lemma example_frames:
  "drawVideoFrame example_black (createCanvas 1 1) = example_black"
  "drawVideoFrame example_tainted (createCanvas 1 1) = example_tainted"
  by (simp_all add: drawVideoFrame_def drawImage_def createCanvas_def example_black_def
      example_tainted_def example_blue_def
      pixelCentreX_def pixelCentreY_def samplePixel_def sourceOver_def canvasPixel_def
      premultiply_def unpremultiply_def Let_def ToUint8Clamp_def transparentBlack_def)

lemma example_corrected_composite:
  "drawImage example_black NoClip 1
     (example_red\<lparr>bm_pixels := [\<lparr>px_r = 128, px_g = 0, px_b = 0, px_a = 255\<rparr>]\<rparr>)
     0 0 (real (1::nat)) (real (1::nat))
   = example_red\<lparr>bm_pixels := [\<lparr>px_r = 128, px_g = 0, px_b = 0, px_a = 255\<rparr>]\<rparr>"
  "drawImage example_tainted NoClip 1 example_red 0 0 (real (1::nat)) (real (1::nat))
   = example_red\<lparr>bm_originClean := False\<rparr>"
  by (simp_all add: drawImage_def example_black_def example_red_def example_tainted_def
      example_blue_def
      pixelCentreX_def pixelCentreY_def samplePixel_def sourceOver_def canvasPixel_def
      premultiply_def unpremultiply_def Let_def ToUint8Clamp_def)

lemma example_corrected_pixels:
  "map (\<lambda>p. canvasPixel
              (if 0 < px_a p
               then \<lparr>px_r = ToUint8Clamp (min 255 (real (px_r p) * (1 / 2))),
                     px_g = ToUint8Clamp (min 255 (real (px_g p) * (1 / 2))),
                     px_b = ToUint8Clamp (min 255 (real (px_b p) * (1 / 2))),
                     px_a = px_a p\<rparr>
               else p))
       (bm_pixels example_red)
   = [\<lparr>px_r = 128, px_g = 0, px_b = 0, px_a = 255\<rparr>]"
  by (simp add: example_red_def canvasPixel_def premultiply_def unpremultiply_def ToUint8Clamp_def)

lemma example_readable:
  "bm_originClean example_black = True" "bm_originClean example_tainted = False"
  by (simp_all add: example_black_def example_tainted_def example_blue_def)

lemma example_correcting_engine:
  "setOptions example_engine (no_options\<lparr>opt_blendAmount := Some 1, opt_colorCorrection := Some True\<rparr>)
   = example_engine\<lparr>options := \<lparr>blendAmount = 1, featherAmount = 20, colorCorrection = True\<rparr>\<rparr>"
  by (simp add: setOptions_def spread_options_def no_options_def example_engine_eq)

section \<open>Claims about the compositor\<close>

text \<open>
  C4: when the geometry is none or no target is loaded, \<open>processFrame\<close> throws nothing,
  leaves the engine as it is and leaves in the output canvas the source frame drawn
  over its whole area, at the canvas' own dimensions; with a target loaded and no
  geometry the output is the one of the engine without target. For a frame of the
  size of the canvas with opaque pixels, the pixels of that output are the pixels of
  the frame.
\<close>

theorem C4_pass_through:
  assumes "sourceFace = None \<or> targetFaceImage this = None"
  shows "processFrame this sourceVideo sourceFace outputCanvas
           = \<lparr>thrown = None, engine_after = this,
              output_after = drawVideoFrame sourceVideo outputCanvas\<rparr>
       \<and> processFrame this sourceVideo None outputCanvas
           = \<lparr>thrown = None, engine_after = this,
              output_after = drawVideoFrame sourceVideo outputCanvas\<rparr>
       \<and> output_after (processFrame this sourceVideo None outputCanvas)
           = output_after (processFrame (clearTargetFace this) sourceVideo anyFace outputCanvas)
       \<and> bm_width (drawVideoFrame sourceVideo outputCanvas) = bm_width outputCanvas
       \<and> bm_height (drawVideoFrame sourceVideo outputCanvas) = bm_height outputCanvas
       \<and> (bm_width sourceVideo = bm_width outputCanvas
            \<and> bm_height sourceVideo = bm_height outputCanvas
            \<and> length (bm_pixels sourceVideo) = bm_width outputCanvas * bm_height outputCanvas
            \<and> length (bm_pixels outputCanvas) = bm_width outputCanvas * bm_height outputCanvas
            \<and> (\<forall>p \<in> set (bm_pixels sourceVideo).
                  px_a p = 255 \<and> px_r p \<le> 255 \<and> px_g p \<le> 255 \<and> px_b p \<le> 255)
          \<longrightarrow> bm_pixels (drawVideoFrame sourceVideo outputCanvas) = bm_pixels sourceVideo)"
proof -
  have a: "processFrame this sourceVideo sourceFace outputCanvas
           = \<lparr>thrown = None, engine_after = this,
              output_after = drawVideoFrame sourceVideo outputCanvas\<rparr>"
    using assms
    by (cases sourceFace; cases "targetFaceImage this") (simp_all add: processFrame_def Let_def)
  have b: "processFrame this sourceVideo None outputCanvas
           = \<lparr>thrown = None, engine_after = this,
              output_after = drawVideoFrame sourceVideo outputCanvas\<rparr>"
    by (simp add: processFrame_def Let_def)
  have c: "output_after (processFrame (clearTargetFace this) sourceVideo anyFace outputCanvas)
           = drawVideoFrame sourceVideo outputCanvas"
    by (cases anyFace) (simp_all add: processFrame_def Let_def clearTargetFace_def)
  show ?thesis
    using a b c drawVideoFrame_size [of sourceVideo outputCanvas] drawVideoFrame_copy
    by simp
qed

text \<open>Witness for C4: an engine without target, a one-pixel frame and canvas.\<close>

theorem C4_witness:
  "(Some example_face = None \<or> targetFaceImage (new_FaceSwapEngine no_options) = None)
   \<and> processFrame (new_FaceSwapEngine no_options) example_blue (Some example_face) (createCanvas 1 1)
       = \<lparr>thrown = None, engine_after = new_FaceSwapEngine no_options,
          output_after = drawVideoFrame example_blue (createCanvas 1 1)\<rparr>
   \<and> bm_width example_blue = bm_width (createCanvas 1 1)
   \<and> bm_height example_blue = bm_height (createCanvas 1 1)
   \<and> length (bm_pixels example_blue) = bm_width (createCanvas 1 1) * bm_height (createCanvas 1 1)
   \<and> length (bm_pixels (createCanvas 1 1)) = bm_width (createCanvas 1 1) * bm_height (createCanvas 1 1)
   \<and> list_all (\<lambda>p. px_a p = 255 \<and> px_r p \<le> 255 \<and> px_g p \<le> 255 \<and> px_b p \<le> 255)
        (bm_pixels example_blue)
   \<and> bm_pixels (drawVideoFrame example_blue (createCanvas 1 1)) = bm_pixels example_blue"
proof -
  have h: "Some example_face = None \<or> targetFaceImage (new_FaceSwapEngine no_options) = None"
    by (simp add: new_FaceSwapEngine_def)
  note t = C4_pass_through [OF h, of example_blue "createCanvas 1 1" None]
  have size: "bm_width example_blue = bm_width (createCanvas 1 1)"
    "bm_height example_blue = bm_height (createCanvas 1 1)"
    "length (bm_pixels example_blue) = bm_width (createCanvas 1 1) * bm_height (createCanvas 1 1)"
    "length (bm_pixels (createCanvas 1 1)) = bm_width (createCanvas 1 1) * bm_height (createCanvas 1 1)"
    by (simp_all add: example_blue_def createCanvas_def)
  have opaque: "\<forall>p \<in> set (bm_pixels example_blue).
                  px_a p = 255 \<and> px_r p \<le> 255 \<and> px_g p \<le> 255 \<and> px_b p \<le> 255"
    by (simp add: example_blue_def)
  then have opaque': "list_all (\<lambda>p. px_a p = 255 \<and> px_r p \<le> 255 \<and> px_g p \<le> 255 \<and> px_b p \<le> 255)
        (bm_pixels example_blue)"
    by (simp add: list_all_iff)
  have "bm_pixels (drawVideoFrame example_blue (createCanvas 1 1)) = bm_pixels example_blue"
    using t [THEN conjunct2, THEN conjunct2, THEN conjunct2, THEN conjunct2, THEN conjunct2]
      size opaque by blast
  with h t [THEN conjunct1] size opaque' show ?thesis
    by (intro conjI)
qed

text \<open>
  C9: after \<open>setOptions({blendAmount: 0})\<close>, for every frame, every geometry and every
  engine whose target (if any) came from a load, the output canvas of \<open>processFrame\<close> is
  the source frame drawn over the canvas, the same as the output of the engine without
  target: the scratch canvas stays transparent and contributes nothing.
\<close>

theorem C9_blendAmount_zero:
  assumes ok: "engine_ok this"
  shows "output_after (processFrame (setOptions this (no_options\<lparr>opt_blendAmount := Some 0\<rparr>))
                         sourceVideo sourceFace outputCanvas)
           = drawVideoFrame sourceVideo outputCanvas
       \<and> output_after (processFrame (setOptions this (no_options\<lparr>opt_blendAmount := Some 0\<rparr>))
                         sourceVideo sourceFace outputCanvas)
           = output_after (processFrame (clearTargetFace this)
                         sourceVideo sourceFace outputCanvas)"
proof -
  let ?eng = "setOptions this (no_options\<lparr>opt_blendAmount := Some 0\<rparr>)"
  let ?out1 = "drawVideoFrame sourceVideo outputCanvas"
  let ?w = "bm_width outputCanvas" and ?h = "bm_height outputCanvas"
  have blend: "blendAmount (options ?eng) = 0"
    by (simp add: setOptions_def spread_options_def no_options_def)
  have target: "targetFaceImage ?eng = targetFaceImage this"
    by (simp add: setOptions_def)
  have none: "output_after (processFrame (clearTargetFace this) sourceVideo sourceFace outputCanvas)
              = ?out1"
    by (cases sourceFace) (simp_all add: processFrame_def Let_def clearTargetFace_def)
  have "output_after (processFrame ?eng sourceVideo sourceFace outputCanvas) = ?out1"
  proof (cases sourceFace)
    case None
    then show ?thesis
      by (simp add: processFrame_def Let_def)
  next
    case face: (Some face)
    show ?thesis
    proof (cases "targetFaceImage this")
      case None
      with face target show ?thesis
        by (simp add: processFrame_def Let_def)
    next
      case (Some t)
      with ok have clean: "bm_originClean (img_bitmap t)"
        by (simp add: engine_ok_def)
      let ?engA = "?eng\<lparr>canvas := createCanvas ?w ?h\<rparr>"
      have fin: "output_after (finishFrame (colorStage enabled ?engA sourceVideo ?w ?h) face ?out1)
                 = ?out1" for enabled
        by (subst colorStage_blank) (simp_all add: finishFrame_blank drawVideoFrame_size)
      have "targetFaceImage ?eng = Some t"
        using Some target by simp
      from processFrame_stages [OF this] show ?thesis
        using face
        by (simp add: Let_def blend overlayDrawn_blend_zero [OF clean] fin split: sum.split)
    qed
  qed
  with none show ?thesis
    by simp
qed

text \<open>Witness for C9: the example engine, which has the red target loaded.\<close>

theorem C9_witness:
  "engine_ok example_engine
   \<and> hasTargetFace example_engine
   \<and> output_after (processFrame (setOptions example_engine (no_options\<lparr>opt_blendAmount := Some 0\<rparr>))
                     example_blue (Some example_face) (createCanvas 1 1))
       = example_blue"
proof -
  have h: "engine_ok example_engine"
    by (simp add: example_engine_eq engine_ok_def example_red_def)
  have t: "hasTargetFace example_engine"
    by (simp add: example_engine_eq hasTargetFace_def)
  have "output_after (processFrame (setOptions example_engine (no_options\<lparr>opt_blendAmount := Some 0\<rparr>))
                     example_blue (Some example_face) (createCanvas 1 1))
        = drawVideoFrame example_blue (createCanvas 1 1)"
    using C9_blendAmount_zero [OF h, of example_blue "Some example_face" "createCanvas 1 1"]
    by (rule conjunct1)
  also have "\<dots> = example_blue"
    by (rule example_pass_through)
  finally show ?thesis
    using h t by (intro conjI)
qed

text \<open>
  C2 (as stated, refuted): with a target loaded and a geometry whose face oval is
  empty, the claim wants the output to be the pass-through copy. On a one-pixel canvas
  with the red target, the blue frame, the default options and a bounding box whose
  ellipse and image rectangle cover the whole pixel, the overlay is drawn: the output
  pixel is (242, 0, 13, 255), the pass-through copy has the blue pixel
  (0, 0, 255, 255).
\<close>

theorem C2_counterexample:
  "faceOval example_covering_face = []
   \<and> hasTargetFace example_engine
   \<and> bm_pixels (output_after (processFrame example_engine example_blue
                                (Some example_covering_face) (createCanvas 1 1)))
       = [\<lparr>px_r = 242, px_g = 0, px_b = 13, px_a = 255\<rparr>]
   \<and> bm_pixels (drawVideoFrame example_blue (createCanvas 1 1))
       = [\<lparr>px_r = 0, px_g = 0, px_b = 255, px_a = 255\<rparr>]
   \<and> output_after (processFrame example_engine example_blue
                     (Some example_covering_face) (createCanvas 1 1))
       \<noteq> drawVideoFrame example_blue (createCanvas 1 1)"
proof -
  have pre: "0 \<le> box_width (boundingBox example_covering_face)"
    "0 \<le> box_height (boundingBox example_covering_face)"
    "0 < bm_width (createCanvas 1 1)" "0 < bm_height (createCanvas 1 1)"
    "bm_originClean example_red \<or> featherAmount (options example_engine) \<le> 0
     \<or> faceOval example_covering_face = []"
    by (simp_all add: example_box createCanvas_def)
  have "processFrame example_engine example_blue (Some example_covering_face) (createCanvas 1 1)
        = \<lparr>thrown = None, engine_after = example_engine\<lparr>canvas := example_row [example_veil]\<rparr>,
           output_after = example_row [\<lparr>px_r = 242, px_g = 0, px_b = 13, px_a = 255\<rparr>]\<rparr>"
    using processFrame_result [OF example_options(1), of example_covering_face "createCanvas 1 1"
        example_blue]
    unfolding Let_def example_options example_box example_sizes
      example_ellipse example_overlay1 correctionStep_off featheredCanvas_empty
      example_pass_through example_composite1
    using pre by simp
  then have out: "output_after (processFrame example_engine example_blue
                     (Some example_covering_face) (createCanvas 1 1))
                  = example_row [\<lparr>px_r = 242, px_g = 0, px_b = 13, px_a = 255\<rparr>]"
    by simp
  have "faceOval example_covering_face = []" "hasTargetFace example_engine"
    by (simp_all add: example_box hasTargetFace_def example_options)
  then show ?thesis
    unfolding out example_pass_through
    by (simp add: example_row_def example_blue_def)
qed

text \<open>
  C2 (amended): with a target loaded and a geometry whose face oval is empty, a box of
  non-negative width and height and a canvas that is not empty, only the feathering
  step is skipped: \<open>applyFeathering\<close> returns with the scratch canvas untouched. The
  call throws nothing; the overlay is the target drawn from the bounding box, inside
  the ellipse of the box, with the opacity \<open>blendAmount\<close>; it is colour-corrected when
  that is enabled and the pixels can be read back; and the output canvas is the source
  frame drawn over the canvas with that scratch canvas composited over it. The
  exception, output canvas and scratch canvas are those of the call with
  \<open>featherAmount = 0\<close>.
\<close>

theorem C2_empty_oval_skips_only_feathering:
  assumes "faceOval face = []" and "targetFaceImage this = Some target"
    and "0 \<le> box_width (boundingBox face)" and "0 \<le> box_height (boundingBox face)"
    and "0 < bm_width outputCanvas" and "0 < bm_height outputCanvas"
  shows "applyFeathering this face width height = Inr this
       \<and> processFrame this sourceVideo (Some face) outputCanvas =
           (let overlay = overlayDrawn (blendAmount (options this)) (img_bitmap target)
                            (boundingBox face) (bm_width outputCanvas) (bm_height outputCanvas)
                            (faceEllipse (boundingBox face) (bm_width outputCanvas)
                               (bm_height outputCanvas));
                scratch = correctionStep (colorCorrection (options this)) sourceVideo
                            (bm_width outputCanvas) (bm_height outputCanvas) overlay
            in \<lparr>thrown = None, engine_after = this\<lparr>canvas := scratch\<rparr>,
                output_after = drawImage (drawVideoFrame sourceVideo outputCanvas) NoClip 1 scratch
                                 0 0 (real (bm_width outputCanvas)) (real (bm_height outputCanvas))\<rparr>)
       \<and> thrown (processFrame this sourceVideo (Some face) outputCanvas)
           = thrown (processFrame (setOptions this (no_options\<lparr>opt_featherAmount := Some 0\<rparr>))
                       sourceVideo (Some face) outputCanvas)
       \<and> output_after (processFrame this sourceVideo (Some face) outputCanvas)
           = output_after (processFrame (setOptions this (no_options\<lparr>opt_featherAmount := Some 0\<rparr>))
                       sourceVideo (Some face) outputCanvas)
       \<and> canvas (engine_after (processFrame this sourceVideo (Some face) outputCanvas))
           = canvas (engine_after
                (processFrame (setOptions this (no_options\<lparr>opt_featherAmount := Some 0\<rparr>))
                       sourceVideo (Some face) outputCanvas))"
proof -
  have skip: "applyFeathering this face width height = Inr this"
    using assms(1) by (rule applyFeathering_empty_oval)
  have "bm_originClean (img_bitmap target) \<or> featherAmount (options this) \<le> 0 \<or> faceOval face = []"
    using assms(1) by simp
  from processFrame_result [OF assms(2-6) this, of sourceVideo]
  have run: "processFrame this sourceVideo (Some face) outputCanvas =
           (let overlay = overlayDrawn (blendAmount (options this)) (img_bitmap target)
                            (boundingBox face) (bm_width outputCanvas) (bm_height outputCanvas)
                            (faceEllipse (boundingBox face) (bm_width outputCanvas)
                               (bm_height outputCanvas));
                scratch = correctionStep (colorCorrection (options this)) sourceVideo
                            (bm_width outputCanvas) (bm_height outputCanvas) overlay
            in \<lparr>thrown = None, engine_after = this\<lparr>canvas := scratch\<rparr>,
                output_after = drawImage (drawVideoFrame sourceVideo outputCanvas) NoClip 1 scratch
                                 0 0 (real (bm_width outputCanvas)) (real (bm_height outputCanvas))\<rparr>)"
    using assms(1) by (simp add: Let_def featheredCanvas_skip)
  from skip run empty_oval_as_no_feather [OF assms(1), of this sourceVideo outputCanvas]
  show ?thesis
    by (intro conjI) simp_all
qed

text \<open>
  Witness for C2: the example engine with the red target, the blue frame, a one-pixel
  canvas and the face with the empty oval: the scratch canvas holds
  (255, 0, 0, 242) and the output pixel is (242, 0, 13, 255).
\<close>

theorem C2_witness:
  "faceOval example_covering_face = []
   \<and> targetFaceImage example_engine
       = Some \<lparr>img_src = ''a.png'', img_crossOrigin = ''anonymous'', img_bitmap = example_red\<rparr>
   \<and> 0 \<le> box_width (boundingBox example_covering_face)
   \<and> 0 \<le> box_height (boundingBox example_covering_face)
   \<and> 0 < bm_width (createCanvas 1 1) \<and> 0 < bm_height (createCanvas 1 1)
   \<and> applyFeathering example_engine example_covering_face 1 1 = Inr example_engine
   \<and> processFrame example_engine example_blue (Some example_covering_face) (createCanvas 1 1)
       = \<lparr>thrown = None,
          engine_after = example_engine\<lparr>canvas :=
            \<lparr>bm_width = 1, bm_height = 1,
             bm_pixels = [\<lparr>px_r = 255, px_g = 0, px_b = 0, px_a = 242\<rparr>], bm_originClean = True\<rparr>\<rparr>,
          output_after =
            \<lparr>bm_width = 1, bm_height = 1,
             bm_pixels = [\<lparr>px_r = 242, px_g = 0, px_b = 13, px_a = 255\<rparr>], bm_originClean = True\<rparr>\<rparr>
   \<and> output_after (processFrame example_engine example_blue (Some example_covering_face)
                     (createCanvas 1 1))
       = output_after (processFrame (setOptions example_engine (no_options\<lparr>opt_featherAmount := Some 0\<rparr>))
                         example_blue (Some example_covering_face) (createCanvas 1 1))"
proof -
  have h: "faceOval example_covering_face = []"
    "targetFaceImage example_engine
       = Some \<lparr>img_src = ''a.png'', img_crossOrigin = ''anonymous'', img_bitmap = example_red\<rparr>"
    "0 \<le> box_width (boundingBox example_covering_face)"
    "0 \<le> box_height (boundingBox example_covering_face)"
    "0 < bm_width (createCanvas 1 1)" "0 < bm_height (createCanvas 1 1)"
    by (simp_all add: example_box example_options createCanvas_def)
  note t = C2_empty_oval_skips_only_feathering [OF h, where sourceVideo = example_blue
      and width = 1 and height = 1]
  have run: "processFrame example_engine example_blue (Some example_covering_face) (createCanvas 1 1)
       = \<lparr>thrown = None,
          engine_after = example_engine\<lparr>canvas :=
            \<lparr>bm_width = 1, bm_height = 1,
             bm_pixels = [\<lparr>px_r = 255, px_g = 0, px_b = 0, px_a = 242\<rparr>], bm_originClean = True\<rparr>\<rparr>,
          output_after =
            \<lparr>bm_width = 1, bm_height = 1,
             bm_pixels = [\<lparr>px_r = 242, px_g = 0, px_b = 13, px_a = 255\<rparr>], bm_originClean = True\<rparr>\<rparr>"
    using t [THEN conjunct2, THEN conjunct1]
    unfolding Let_def example_options example_box example_sizes
      example_ellipse example_overlay1 correctionStep_off example_pass_through example_composite1
    by (simp add: example_row_def example_veil_def)
  from h t [THEN conjunct1] run
    t [THEN conjunct2, THEN conjunct2, THEN conjunct2, THEN conjunct1]
  show ?thesis
    by (intro conjI)
qed

text \<open>
  C7: in \<open>processFrame\<close>, for an engine whose target came from a load, a box of
  non-negative width and height and a canvas that is not empty, the call throws
  nothing and the scratch canvas that is composited over the source frame is the
  feathered one: with the centroid the mean of the outline points in pixel space and
  \<open>maxDist\<close> the largest distance from it to an outline point, every pixel with alpha
  above 0 that is further from the centroid than \<open>maxDist - featherAmount\<close> has its
  alpha multiplied by \<open>(maxDist - dist) / featherAmount\<close>, cut off at 0, clamped to
  0..255 and stored as a byte; every other pixel keeps its alpha. With
  \<open>featherAmount = 0\<close> (or below) the scratch canvas is the one before the step.
\<close>

theorem C7_feathering:
  assumes "engine_ok this" and "targetFaceImage this = Some target"
    and "0 \<le> box_width (boundingBox face)" and "0 \<le> box_height (boundingBox face)"
    and "0 < bm_width outputCanvas" and "0 < bm_height outputCanvas"
  shows
    "(let width = bm_width outputCanvas;
          height = bm_height outputCanvas;
          feather = featherAmount (options this);
          before = correctionStep (colorCorrection (options this)) sourceVideo width height
                     (overlayDrawn (blendAmount (options this)) (img_bitmap target)
                        (boundingBox face) width height
                        (faceEllipse (boundingBox face) width height));
          centroid = outlineCentroid (faceOval face) width height;
          maxDist = outlineMaxDist (faceOval face) width height centroid;
          scratch = featheredCanvas (faceOval face) feather width height before
      in processFrame this sourceVideo (Some face) outputCanvas
           = \<lparr>thrown = None, engine_after = this\<lparr>canvas := scratch\<rparr>,
              output_after = drawImage (drawVideoFrame sourceVideo outputCanvas) NoClip 1 scratch
                               0 0 (real width) (real height)\<rparr>
         \<and> (feather \<le> 0 \<longrightarrow> scratch = before)
         \<and> (0 < feather \<and> faceOval face \<noteq> [] \<and> k < width * height \<longrightarrow>
              px_a (bm_pixels scratch ! k) =
                (let a = px_a (bm_pixels before ! k);
                     dist = euclid (real (k mod width)) (real (k div width))
                              (fst centroid) (snd centroid)
                 in if 0 < a \<and> maxDist - feather < dist
                    then ToUint8Clamp
                           (max 0 (min 255 (real a * max 0 ((maxDist - dist) / feather))))
                    else a)))"
proof -
  have clean: "bm_originClean (img_bitmap target) \<or> featherAmount (options this) \<le> 0
               \<or> faceOval face = []"
    using assms(1,2) by (simp add: engine_ok_def)
  note run = processFrame_result [OF assms(2-6) clean, of sourceVideo]
  show ?thesis
    unfolding Let_def
  proof (intro conjI impI)
    show "processFrame this sourceVideo (Some face) outputCanvas =
      \<lparr>thrown = None,
       engine_after = this\<lparr>canvas :=
         featheredCanvas (faceOval face) (featherAmount (options this))
           (bm_width outputCanvas) (bm_height outputCanvas)
           (correctionStep (colorCorrection (options this)) sourceVideo
              (bm_width outputCanvas) (bm_height outputCanvas)
              (overlayDrawn (blendAmount (options this)) (img_bitmap target)
                 (boundingBox face) (bm_width outputCanvas) (bm_height outputCanvas)
                 (faceEllipse (boundingBox face) (bm_width outputCanvas)
                    (bm_height outputCanvas))))\<rparr>,
       output_after = drawImage (drawVideoFrame sourceVideo outputCanvas) NoClip 1
         (featheredCanvas (faceOval face) (featherAmount (options this))
            (bm_width outputCanvas) (bm_height outputCanvas)
            (correctionStep (colorCorrection (options this)) sourceVideo
               (bm_width outputCanvas) (bm_height outputCanvas)
               (overlayDrawn (blendAmount (options this)) (img_bitmap target)
                  (boundingBox face) (bm_width outputCanvas) (bm_height outputCanvas)
                  (faceEllipse (boundingBox face) (bm_width outputCanvas)
                     (bm_height outputCanvas)))))
         0 0 (real (bm_width outputCanvas)) (real (bm_height outputCanvas))\<rparr>"
      using run unfolding Let_def .
  next
    assume "featherAmount (options this) \<le> 0"
    then show "featheredCanvas (faceOval face) (featherAmount (options this))
                 (bm_width outputCanvas) (bm_height outputCanvas) cv = cv" for cv
      by (simp add: featheredCanvas_skip)
  next
    assume "0 < featherAmount (options this) \<and> faceOval face \<noteq> []
            \<and> k < bm_width outputCanvas * bm_height outputCanvas"
    then show "px_a (bm_pixels (featheredCanvas (faceOval face) (featherAmount (options this))
                 (bm_width outputCanvas) (bm_height outputCanvas) cv) ! k) =
          (if 0 < px_a (bm_pixels cv ! k)
              \<and> outlineMaxDist (faceOval face) (bm_width outputCanvas) (bm_height outputCanvas)
                   (outlineCentroid (faceOval face) (bm_width outputCanvas) (bm_height outputCanvas))
                 - featherAmount (options this)
                 < euclid (real (k mod bm_width outputCanvas)) (real (k div bm_width outputCanvas))
                     (fst (outlineCentroid (faceOval face) (bm_width outputCanvas)
                             (bm_height outputCanvas)))
                     (snd (outlineCentroid (faceOval face) (bm_width outputCanvas)
                             (bm_height outputCanvas)))
           then ToUint8Clamp
                  (max 0 (min 255 (real (px_a (bm_pixels cv ! k)) *
                     max 0 ((outlineMaxDist (faceOval face) (bm_width outputCanvas)
                               (bm_height outputCanvas)
                               (outlineCentroid (faceOval face) (bm_width outputCanvas)
                                  (bm_height outputCanvas))
                             - euclid (real (k mod bm_width outputCanvas))
                                 (real (k div bm_width outputCanvas))
                                 (fst (outlineCentroid (faceOval face) (bm_width outputCanvas)
                                         (bm_height outputCanvas)))
                                 (snd (outlineCentroid (faceOval face) (bm_width outputCanvas)
                                         (bm_height outputCanvas))))
                            / featherAmount (options this)))))
           else px_a (bm_pixels cv ! k))" for cv
      by (simp add: featheredCanvas_alpha featheredPixel_def Let_def)
  qed
qed

text \<open>
  Witness for C7: the example engine with the red target and \<open>featherAmount = 2\<close>, the
  blue frame, a canvas of three pixels in a row and an outline with the centroid at
  \<open>(2, 0)\<close> and \<open>maxDist = 2\<close>. The scratch pixels (255, 0, 0, 242) get the alphas 0, 121
  and 242, and the output pixels are blue, (121, 0, 134, 255) and (242, 0, 13, 255);
  with \<open>featherAmount = 0\<close> the scratch pixels keep the alpha 242 and every output pixel
  is (242, 0, 13, 255).
\<close>

theorem C7_witness:
  "engine_ok (setOptions example_engine (no_options\<lparr>opt_featherAmount := Some 2\<rparr>))
   \<and> hasTargetFace (setOptions example_engine (no_options\<lparr>opt_featherAmount := Some 2\<rparr>))
   \<and> 0 \<le> box_width (boundingBox example_outlined_face)
   \<and> 0 \<le> box_height (boundingBox example_outlined_face)
   \<and> 0 < bm_width (createCanvas 3 1) \<and> 0 < bm_height (createCanvas 3 1)
   \<and> faceOval example_outlined_face \<noteq> []
   \<and> 0 < featherAmount (options (setOptions example_engine
                                     (no_options\<lparr>opt_featherAmount := Some 2\<rparr>)))
   \<and> processFrame (setOptions example_engine (no_options\<lparr>opt_featherAmount := Some 2\<rparr>))
        example_blue (Some example_outlined_face) (createCanvas 3 1)
       = \<lparr>thrown = None,
          engine_after = (setOptions example_engine (no_options\<lparr>opt_featherAmount := Some 2\<rparr>))
            \<lparr>canvas :=
               \<lparr>bm_width = 3, bm_height = 1,
                bm_pixels = [\<lparr>px_r = 0, px_g = 0, px_b = 0, px_a = 0\<rparr>,
                             \<lparr>px_r = 255, px_g = 0, px_b = 0, px_a = 121\<rparr>,
                             \<lparr>px_r = 255, px_g = 0, px_b = 0, px_a = 242\<rparr>],
                bm_originClean = True\<rparr>\<rparr>,
          output_after =
            \<lparr>bm_width = 3, bm_height = 1,
             bm_pixels = [\<lparr>px_r = 0, px_g = 0, px_b = 255, px_a = 255\<rparr>,
                          \<lparr>px_r = 121, px_g = 0, px_b = 134, px_a = 255\<rparr>,
                          \<lparr>px_r = 242, px_g = 0, px_b = 13, px_a = 255\<rparr>],
             bm_originClean = True\<rparr>\<rparr>
   \<and> featherAmount (options (setOptions example_engine
                                 (no_options\<lparr>opt_featherAmount := Some 0\<rparr>))) \<le> 0
   \<and> processFrame (setOptions example_engine (no_options\<lparr>opt_featherAmount := Some 0\<rparr>))
        example_blue (Some example_outlined_face) (createCanvas 3 1)
       = \<lparr>thrown = None,
          engine_after = (setOptions example_engine (no_options\<lparr>opt_featherAmount := Some 0\<rparr>))
            \<lparr>canvas :=
               \<lparr>bm_width = 3, bm_height = 1,
                bm_pixels = [\<lparr>px_r = 255, px_g = 0, px_b = 0, px_a = 242\<rparr>,
                             \<lparr>px_r = 255, px_g = 0, px_b = 0, px_a = 242\<rparr>,
                             \<lparr>px_r = 255, px_g = 0, px_b = 0, px_a = 242\<rparr>],
                bm_originClean = True\<rparr>\<rparr>,
          output_after =
            \<lparr>bm_width = 3, bm_height = 1,
             bm_pixels = [\<lparr>px_r = 242, px_g = 0, px_b = 13, px_a = 255\<rparr>,
                          \<lparr>px_r = 242, px_g = 0, px_b = 13, px_a = 255\<rparr>,
                          \<lparr>px_r = 242, px_g = 0, px_b = 13, px_a = 255\<rparr>],
             bm_originClean = True\<rparr>\<rparr>"
proof -
  let ?soft = "setOptions example_engine (no_options\<lparr>opt_featherAmount := Some 2\<rparr>)"
  let ?hard = "setOptions example_engine (no_options\<lparr>opt_featherAmount := Some 0\<rparr>)"
  let ?target = "\<lparr>img_src = ''a.png'', img_crossOrigin = ''anonymous'', img_bitmap = example_red\<rparr>"
  have ok: "engine_ok ?soft" "engine_ok ?hard"
    unfolding example_feathering_engine
    by (simp_all add: engine_ok_def example_options example_red_def)
  have target: "targetFaceImage ?soft = Some ?target" "targetFaceImage ?hard = Some ?target"
    unfolding example_feathering_engine by (simp_all add: example_options)
  have loaded: "hasTargetFace ?soft"
    by (simp add: hasTargetFace_def target)
  have pre: "0 \<le> box_width (boundingBox example_outlined_face)"
    "0 \<le> box_height (boundingBox example_outlined_face)"
    "0 < bm_width (createCanvas 3 1)" "0 < bm_height (createCanvas 3 1)"
    by (simp_all add: example_box createCanvas_def)
  have oval: "faceOval example_outlined_face \<noteq> []"
    by (simp add: example_box)
  have amounts: "0 < featherAmount (options ?soft)" "featherAmount (options ?hard) \<le> 0"
    unfolding example_feathering_engine by simp_all
  have soft: "processFrame ?soft example_blue (Some example_outlined_face) (createCanvas 3 1)
       = \<lparr>thrown = None,
          engine_after = ?soft\<lparr>canvas :=
               \<lparr>bm_width = 3, bm_height = 1,
                bm_pixels = [\<lparr>px_r = 0, px_g = 0, px_b = 0, px_a = 0\<rparr>,
                             \<lparr>px_r = 255, px_g = 0, px_b = 0, px_a = 121\<rparr>,
                             \<lparr>px_r = 255, px_g = 0, px_b = 0, px_a = 242\<rparr>],
                bm_originClean = True\<rparr>\<rparr>,
          output_after =
            \<lparr>bm_width = 3, bm_height = 1,
             bm_pixels = [\<lparr>px_r = 0, px_g = 0, px_b = 255, px_a = 255\<rparr>,
                          \<lparr>px_r = 121, px_g = 0, px_b = 134, px_a = 255\<rparr>,
                          \<lparr>px_r = 242, px_g = 0, px_b = 13, px_a = 255\<rparr>],
             bm_originClean = True\<rparr>\<rparr>"
    using C7_feathering [OF ok(1) target(1) pre, where sourceVideo = example_blue and k = 0]
    unfolding Let_def example_feathering_engine example_feathering_options example_options
      example_box example_sizes example_ellipse example_overlay3 correctionStep_off
      example_feathered example_frame3 example_composite3
    by (simp add: example_row_def example_veil_def transparentBlack_def)
  have hard: "processFrame ?hard example_blue (Some example_outlined_face) (createCanvas 3 1)
       = \<lparr>thrown = None,
          engine_after = ?hard\<lparr>canvas :=
               \<lparr>bm_width = 3, bm_height = 1,
                bm_pixels = [\<lparr>px_r = 255, px_g = 0, px_b = 0, px_a = 242\<rparr>,
                             \<lparr>px_r = 255, px_g = 0, px_b = 0, px_a = 242\<rparr>,
                             \<lparr>px_r = 255, px_g = 0, px_b = 0, px_a = 242\<rparr>],
                bm_originClean = True\<rparr>\<rparr>,
          output_after =
            \<lparr>bm_width = 3, bm_height = 1,
             bm_pixels = [\<lparr>px_r = 242, px_g = 0, px_b = 13, px_a = 255\<rparr>,
                          \<lparr>px_r = 242, px_g = 0, px_b = 13, px_a = 255\<rparr>,
                          \<lparr>px_r = 242, px_g = 0, px_b = 13, px_a = 255\<rparr>],
             bm_originClean = True\<rparr>\<rparr>"
    using C7_feathering [OF ok(2) target(2) pre, where sourceVideo = example_blue and k = 0]
    unfolding Let_def example_feathering_engine example_feathering_options example_options
      example_box example_sizes example_ellipse example_overlay3 correctionStep_off
      featheredCanvas_zero example_frame3 example_composite3_hard
    by (simp add: example_row_def example_veil_def)
  from ok(1) loaded pre oval amounts(1) soft amounts(2) hard show ?thesis
    by (intro conjI)
qed

text \<open>
  C8: in \<open>processFrame\<close> with \<open>colorCorrection\<close> enabled, for an engine whose target came
  from a load, a box of non-negative width and height and a canvas that is not empty,
  the call throws nothing and the scratch canvas that goes on to the feathering and
  is composited over the source frame is the corrected overlay when the source frame
  can be read back, and the overlay as drawn when it cannot. The corrected overlay
  has, in one pass, the red, green and blue of every pixel with alpha above 0
  multiplied by the ratio of that channel, capped at 255 and rounded to a byte; the
  ratio of a channel is its mean over the central 50 by 50 block of the source frame
  divided by its mean over the same block of the overlay (a zero mean read as 1),
  clamped to 0.5..1.5. When the source frame cannot be read back the output is the
  one of the call with \<open>colorCorrection\<close> off.
\<close>

theorem C8_color_correction:
  assumes "colorCorrection (options this)"
    and "engine_ok this" and "targetFaceImage this = Some target"
    and "0 \<le> box_width (boundingBox face)" and "0 \<le> box_height (boundingBox face)"
    and "0 < bm_width outputCanvas" and "0 < bm_height outputCanvas"
  shows
    "(let width = bm_width outputCanvas;
          height = bm_height outputCanvas;
          overlay = overlayDrawn (blendAmount (options this)) (img_bitmap target)
                      (boundingBox face) width height
                      (faceEllipse (boundingBox face) width height);
          sourceBlock = centreBlock (scaledFrame sourceVideo width height) width height;
          scratchBlock = centreBlock overlay width height;
          rRatio = channelRatio (channelMean px_r sourceBlock) (channelMean px_r scratchBlock);
          gRatio = channelRatio (channelMean px_g sourceBlock) (channelMean px_g scratchBlock);
          bRatio = channelRatio (channelMean px_b sourceBlock) (channelMean px_b scratchBlock);
          corrected = overlay\<lparr>bm_pixels :=
                        map (\<lambda>p. canvasPixel
                                   (if 0 < px_a p
                                    then \<lparr>px_r = ToUint8Clamp (min 255 (real (px_r p) * rRatio)),
                                          px_g = ToUint8Clamp (min 255 (real (px_g p) * gRatio)),
                                          px_b = ToUint8Clamp (min 255 (real (px_b p) * bRatio)),
                                          px_a = px_a p\<rparr>
                                    else p))
                            (bm_pixels overlay)\<rparr>;
          scratch = featheredCanvas (faceOval face) (featherAmount (options this)) width height
                      (if bm_originClean sourceVideo then corrected else overlay)
      in processFrame this sourceVideo (Some face) outputCanvas
           = \<lparr>thrown = None, engine_after = this\<lparr>canvas := scratch\<rparr>,
              output_after = drawImage (drawVideoFrame sourceVideo outputCanvas) NoClip 1 scratch
                               0 0 (real width) (real height)\<rparr>)
     \<and> (\<not> bm_originClean sourceVideo \<longrightarrow>
          thrown (processFrame this sourceVideo (Some face) outputCanvas)
            = thrown (processFrame
                       (setOptions this (no_options\<lparr>opt_colorCorrection := Some False\<rparr>))
                       sourceVideo (Some face) outputCanvas)
        \<and> output_after (processFrame this sourceVideo (Some face) outputCanvas)
            = output_after (processFrame
                       (setOptions this (no_options\<lparr>opt_colorCorrection := Some False\<rparr>))
                       sourceVideo (Some face) outputCanvas)
        \<and> canvas (engine_after (processFrame this sourceVideo (Some face) outputCanvas))
            = canvas (engine_after (processFrame
                       (setOptions this (no_options\<lparr>opt_colorCorrection := Some False\<rparr>))
                       sourceVideo (Some face) outputCanvas)))"
proof -
  let ?w = "bm_width outputCanvas" and ?h = "bm_height outputCanvas"
  let ?overlay = "overlayDrawn (blendAmount (options this)) (img_bitmap target)
                    (boundingBox face) ?w ?h (faceEllipse (boundingBox face) ?w ?h)"
  let ?off = "setOptions this (no_options\<lparr>opt_colorCorrection := Some False\<rparr>)"
  have target_clean: "bm_originClean (img_bitmap target)"
    using assms(2,3) by (simp add: engine_ok_def)
  then have clean: "bm_originClean (img_bitmap target) \<or> featherAmount (options this) \<le> 0
               \<or> faceOval face = []"
    by simp
  have overlay_clean: "bm_originClean ?overlay"
    using target_clean by (simp add: overlayDrawn_wf)
  note run = processFrame_result [OF assms(3-7) clean, of sourceVideo]
  have step: "correctionStep (colorCorrection (options this)) sourceVideo ?w ?h ?overlay
              = (if bm_originClean sourceVideo then correctedCanvas sourceVideo ?w ?h ?overlay
                 else ?overlay)"
    using assms(1) overlay_clean by (simp add: correctionStep_def)
  have first: "processFrame this sourceVideo (Some face) outputCanvas =
      \<lparr>thrown = None,
       engine_after = this\<lparr>canvas :=
         featheredCanvas (faceOval face) (featherAmount (options this)) ?w ?h
           (if bm_originClean sourceVideo then correctedCanvas sourceVideo ?w ?h ?overlay
            else ?overlay)\<rparr>,
       output_after = drawImage (drawVideoFrame sourceVideo outputCanvas) NoClip 1
         (featheredCanvas (faceOval face) (featherAmount (options this)) ?w ?h
            (if bm_originClean sourceVideo then correctedCanvas sourceVideo ?w ?h ?overlay
             else ?overlay))
         0 0 (real ?w) (real ?h)\<rparr>"
    using run unfolding Let_def step .
  have off: "targetFaceImage ?off = Some target"
    "blendAmount (options ?off) = blendAmount (options this)"
    "featherAmount (options ?off) = featherAmount (options this)"
    "\<not> colorCorrection (options ?off)"
    using assms(3) by (simp_all add: setOptions_def spread_options_def no_options_def)
  have clean_off: "bm_originClean (img_bitmap target) \<or> featherAmount (options ?off) \<le> 0
               \<or> faceOval face = []"
    using target_clean by simp
  have run_off: "processFrame ?off sourceVideo (Some face) outputCanvas =
      \<lparr>thrown = None,
       engine_after = ?off\<lparr>canvas :=
         featheredCanvas (faceOval face) (featherAmount (options this)) ?w ?h ?overlay\<rparr>,
       output_after = drawImage (drawVideoFrame sourceVideo outputCanvas) NoClip 1
         (featheredCanvas (faceOval face) (featherAmount (options this)) ?w ?h ?overlay)
         0 0 (real ?w) (real ?h)\<rparr>"
    using processFrame_result [OF off(1) assms(4-7) clean_off, of sourceVideo]
    unfolding Let_def off(2,3) using off(4) by (simp add: correctionStep_def)
  show ?thesis
  proof (intro conjI impI)
    show "(let width = bm_width outputCanvas;
          height = bm_height outputCanvas;
          overlay = overlayDrawn (blendAmount (options this)) (img_bitmap target)
                      (boundingBox face) width height
                      (faceEllipse (boundingBox face) width height);
          sourceBlock = centreBlock (scaledFrame sourceVideo width height) width height;
          scratchBlock = centreBlock overlay width height;
          rRatio = channelRatio (channelMean px_r sourceBlock) (channelMean px_r scratchBlock);
          gRatio = channelRatio (channelMean px_g sourceBlock) (channelMean px_g scratchBlock);
          bRatio = channelRatio (channelMean px_b sourceBlock) (channelMean px_b scratchBlock);
          corrected = overlay\<lparr>bm_pixels :=
                        map (\<lambda>p. canvasPixel
                                   (if 0 < px_a p
                                    then \<lparr>px_r = ToUint8Clamp (min 255 (real (px_r p) * rRatio)),
                                          px_g = ToUint8Clamp (min 255 (real (px_g p) * gRatio)),
                                          px_b = ToUint8Clamp (min 255 (real (px_b p) * bRatio)),
                                          px_a = px_a p\<rparr>
                                    else p))
                            (bm_pixels overlay)\<rparr>;
          scratch = featheredCanvas (faceOval face) (featherAmount (options this)) width height
                      (if bm_originClean sourceVideo then corrected else overlay)
      in processFrame this sourceVideo (Some face) outputCanvas
           = \<lparr>thrown = None, engine_after = this\<lparr>canvas := scratch\<rparr>,
              output_after = drawImage (drawVideoFrame sourceVideo outputCanvas) NoClip 1 scratch
                               0 0 (real width) (real height)\<rparr>)"
      using first unfolding correctedCanvas_def Let_def .
  next
    assume dirty: "\<not> bm_originClean sourceVideo"
    show "thrown (processFrame this sourceVideo (Some face) outputCanvas)
            = thrown (processFrame ?off sourceVideo (Some face) outputCanvas)"
      unfolding first run_off by simp
    show "output_after (processFrame this sourceVideo (Some face) outputCanvas)
            = output_after (processFrame ?off sourceVideo (Some face) outputCanvas)"
      unfolding first run_off using dirty by simp
    show "canvas (engine_after (processFrame this sourceVideo (Some face) outputCanvas))
            = canvas (engine_after (processFrame ?off sourceVideo (Some face) outputCanvas))"
      unfolding first run_off using dirty by simp
  qed
qed

text \<open>
  Witness for C8: the example engine with the red target, \<open>blendAmount = 1\<close> and
  \<open>colorCorrection\<close> on, a one-pixel canvas and the face with the empty oval. With the
  black frame every ratio is 0.5: the scratch pixel (255, 0, 0, 255) becomes
  (128, 0, 0, 255), and so does the output pixel. With the frame that is not
  origin-clean the scratch pixel stays (255, 0, 0, 255), nothing is thrown and the
  output pixel is (255, 0, 0, 255).
\<close>

theorem C8_witness:
  "colorCorrection (options (setOptions example_engine
      (no_options\<lparr>opt_blendAmount := Some 1, opt_colorCorrection := Some True\<rparr>)))
   \<and> engine_ok (setOptions example_engine
      (no_options\<lparr>opt_blendAmount := Some 1, opt_colorCorrection := Some True\<rparr>))
   \<and> hasTargetFace (setOptions example_engine
      (no_options\<lparr>opt_blendAmount := Some 1, opt_colorCorrection := Some True\<rparr>))
   \<and> 0 \<le> box_width (boundingBox example_covering_face)
   \<and> 0 \<le> box_height (boundingBox example_covering_face)
   \<and> 0 < bm_width (createCanvas 1 1) \<and> 0 < bm_height (createCanvas 1 1)
   \<and> bm_originClean example_black
   \<and> processFrame (setOptions example_engine
         (no_options\<lparr>opt_blendAmount := Some 1, opt_colorCorrection := Some True\<rparr>))
        example_black (Some example_covering_face) (createCanvas 1 1)
       = \<lparr>thrown = None,
          engine_after = (setOptions example_engine
              (no_options\<lparr>opt_blendAmount := Some 1, opt_colorCorrection := Some True\<rparr>))
            \<lparr>canvas :=
               \<lparr>bm_width = 1, bm_height = 1,
                bm_pixels = [\<lparr>px_r = 128, px_g = 0, px_b = 0, px_a = 255\<rparr>],
                bm_originClean = True\<rparr>\<rparr>,
          output_after =
            \<lparr>bm_width = 1, bm_height = 1,
             bm_pixels = [\<lparr>px_r = 128, px_g = 0, px_b = 0, px_a = 255\<rparr>],
             bm_originClean = True\<rparr>\<rparr>
   \<and> \<not> bm_originClean example_tainted
   \<and> processFrame (setOptions example_engine
         (no_options\<lparr>opt_blendAmount := Some 1, opt_colorCorrection := Some True\<rparr>))
        example_tainted (Some example_covering_face) (createCanvas 1 1)
       = \<lparr>thrown = None,
          engine_after = (setOptions example_engine
              (no_options\<lparr>opt_blendAmount := Some 1, opt_colorCorrection := Some True\<rparr>))
            \<lparr>canvas :=
               \<lparr>bm_width = 1, bm_height = 1,
                bm_pixels = [\<lparr>px_r = 255, px_g = 0, px_b = 0, px_a = 255\<rparr>],
                bm_originClean = True\<rparr>\<rparr>,
          output_after =
            \<lparr>bm_width = 1, bm_height = 1,
             bm_pixels = [\<lparr>px_r = 255, px_g = 0, px_b = 0, px_a = 255\<rparr>],
             bm_originClean = False\<rparr>\<rparr>"
proof -
  let ?eng = "setOptions example_engine
                (no_options\<lparr>opt_blendAmount := Some 1, opt_colorCorrection := Some True\<rparr>)"
  let ?target = "\<lparr>img_src = ''a.png'', img_crossOrigin = ''anonymous'', img_bitmap = example_red\<rparr>"
  have on: "colorCorrection (options ?eng)"
    unfolding example_correcting_engine by simp
  have ok: "engine_ok ?eng"
    unfolding example_correcting_engine
    by (simp add: engine_ok_def example_options example_red_def)
  have target: "targetFaceImage ?eng = Some ?target"
    unfolding example_correcting_engine by (simp add: example_options)
  have loaded: "hasTargetFace ?eng"
    by (simp add: hasTargetFace_def target)
  have pre: "0 \<le> box_width (boundingBox example_covering_face)"
    "0 \<le> box_height (boundingBox example_covering_face)"
    "0 < bm_width (createCanvas 1 1)" "0 < bm_height (createCanvas 1 1)"
    by (simp_all add: example_box createCanvas_def)
  have clean: "bm_originClean example_black" "\<not> bm_originClean example_tainted"
    by (simp_all add: example_readable)
  have corrected: "processFrame ?eng example_black (Some example_covering_face) (createCanvas 1 1)
       = \<lparr>thrown = None,
          engine_after = ?eng\<lparr>canvas :=
               \<lparr>bm_width = 1, bm_height = 1,
                bm_pixels = [\<lparr>px_r = 128, px_g = 0, px_b = 0, px_a = 255\<rparr>],
                bm_originClean = True\<rparr>\<rparr>,
          output_after =
            \<lparr>bm_width = 1, bm_height = 1,
             bm_pixels = [\<lparr>px_r = 128, px_g = 0, px_b = 0, px_a = 255\<rparr>],
             bm_originClean = True\<rparr>\<rparr>"
    using C8_color_correction [OF on ok target pre, where sourceVideo = example_black,
        THEN conjunct1]
    unfolding Let_def example_correcting_engine example_feathering_options example_options
      example_box example_sizes example_ellipse example_overlay_opaque
      example_black_means channelRatio_zero_source example_corrected_pixels
      example_readable if_True featheredCanvas_empty example_frames example_corrected_composite
    by (simp add: example_red_def)
  have skipped: "processFrame ?eng example_tainted (Some example_covering_face) (createCanvas 1 1)
       = \<lparr>thrown = None,
          engine_after = ?eng\<lparr>canvas :=
               \<lparr>bm_width = 1, bm_height = 1,
                bm_pixels = [\<lparr>px_r = 255, px_g = 0, px_b = 0, px_a = 255\<rparr>],
                bm_originClean = True\<rparr>\<rparr>,
          output_after =
            \<lparr>bm_width = 1, bm_height = 1,
             bm_pixels = [\<lparr>px_r = 255, px_g = 0, px_b = 0, px_a = 255\<rparr>],
             bm_originClean = False\<rparr>\<rparr>"
    using C8_color_correction [OF on ok target pre, where sourceVideo = example_tainted,
        THEN conjunct1]
    unfolding Let_def example_correcting_engine example_feathering_options example_options
      example_box example_sizes example_ellipse example_overlay_opaque
      example_readable if_False featheredCanvas_empty example_frames example_corrected_composite
    by (simp add: example_red_def)
  from on ok loaded pre clean(1) corrected clean(2) skipped show ?thesis
    by (intro conjI)
qed

end
